theory Spec2Isabelle
  imports Complex_Main
begin

section \<open>The zebra block heap of syzygy/agent/asan/heaps/zebra_block_heap.cc\<close>

text \<open>
  The heap reserves one contiguous region, cuts it into slabs of two pages and serves
  every allocation from the even (first) page of one slab. This theory embeds the class
  \<^verbatim>\<open>ZebraBlockHeap\<close> member function by member function: the object is a record that
  every function takes and returns, a pointer is the address it holds (a natural
  number, \<open>0\<close> for \<^verbatim>\<open>NULL\<close>), and a failed \<^verbatim>\<open>CHECK\<close> or \<^verbatim>\<open>DCHECK\<close> is the
  value \<open>Inl CheckFailed\<close>: the process stops there.
\<close>

subsection \<open>Data\<close>

datatype fault = CheckFailed

datatype SlabState = kFreeSlab | kAllocatedSlab | kQuarantinedSlab

text \<open>
  \<^verbatim>\<open>BlockLayout\<close> is declared outside this file; these are the fields that
  \<^verbatim>\<open>AllocateBlock\<close> reads, each a \<^verbatim>\<open>size_t\<close>.
\<close>

record BlockLayout =
  block_size :: nat
  header_size :: nat
  header_padding_size :: nat
  trailer_size :: nat
  trailer_padding_size :: nat

text \<open>
  \<^verbatim>\<open>CompactBlockInfo\<close>, the descriptor kept per slab: the five fields that
  \<^verbatim>\<open>AllocateImpl\<close> assigns. \<^verbatim>\<open>memset\<close> to zero gives \<open>zero_info\<close>, and
  \<^verbatim>\<open>memcmp\<close> of two descriptors is equality of the records.
\<close>

record CompactBlockInfo =
  block :: nat
  block_size :: nat
  header_size :: nat
  trailer_size :: nat
  is_nested :: bool

record SlabInfo =
  state :: SlabState
  info :: CompactBlockInfo

definition zero_info :: CompactBlockInfo where
  "zero_info = \<lparr>block = 0, block_size = 0, header_size = 0, trailer_size = 0, is_nested = False\<rparr>"

text \<open>
  What the file takes from its surroundings. \<open>GetPageSize\<close>, \<open>kShadowRatio\<close>,
  \<open>kInvalidSlabIndex\<close>, \<open>kUnknownSize\<close> and
  \<open>kDefaultZebraBlockHeapQuarantineRatio\<close> are constants declared elsewhere;
  \<open>size_t_bits\<close> is the width of \<^verbatim>\<open>size_t\<close>; \<open>dcheck_is_on\<close> tells a build whose
  \<^verbatim>\<open>DCHECK\<close>s are compiled in from one where they are empty; \<open>BlockPlanLayout\<close> is the
  external layout planner, called with (chunk size, alignment, size, minimum left
  redzone, minimum right redzone) and the caller's layout, returning its verdict and the
  layout it wrote. The quarantine ratio is a \<^verbatim>\<open>float\<close>: a finite one, kept as the real
  number it denotes (the contract of \<^verbatim>\<open>set_quarantine_ratio\<close> asks for a value between 0
  and 1).
\<close>

record env =
  GetPageSize :: nat
  kShadowRatio :: nat
  kInvalidSlabIndex :: nat
  kUnknownSize :: nat
  size_t_bits :: nat
  dcheck_is_on :: bool
  BlockPlanLayout :: "nat \<times> nat \<times> nat \<times> nat \<times> nat \<Rightarrow> BlockLayout \<Rightarrow> bool \<times> BlockLayout"
  kDefaultZebraBlockHeapQuarantineRatio :: real

text \<open>
  The members of the class. \<open>free_slabs\<close> and \<open>quarantine\<close> are circular queues of
  slab indices, created with room for \<open>slab_count\<close> entries.

  Modelled from the spec: the queue class is declared outside this file; it is the
  FIFO of the specification, a list whose head is the oldest entry: \<^verbatim>\<open>push\<close> appends,
  \<^verbatim>\<open>front\<close> is \<open>hd\<close>, \<^verbatim>\<open>pop\<close> is \<open>tl\<close>, \<^verbatim>\<open>size\<close> is \<open>length\<close>.
\<close>

record ZebraBlockHeap =
  heap_address :: nat
  heap_size :: nat
  slab_count :: nat
  slab_info :: "SlabInfo list"
  quarantine_ratio :: real
  free_slabs :: "nat list"
  quarantine :: "nat list"

subsection \<open>Constants and helpers\<close>

definition kSlabSize :: "env \<Rightarrow> nat" where
  "kSlabSize e = 2 * GetPageSize e"

definition kMaximumAllocationSize :: "env \<Rightarrow> nat" where
  "kMaximumAllocationSize e = GetPageSize e"

text \<open>
  Modelled from the spec: \<^verbatim>\<open>common::AlignDown\<close> and \<^verbatim>\<open>common::AlignUp\<close> live in
  align.h; they round to the nearest multiple of the alignment below and above.
\<close>

definition AlignDown :: "nat \<Rightarrow> nat \<Rightarrow> nat" where
  "AlignDown x a = x - x mod a"

definition AlignUp :: "nat \<Rightarrow> nat \<Rightarrow> nat" where
  "AlignUp x a = ((x + a - 1) div a) * a"

text \<open>Addition of two \<^verbatim>\<open>size_t\<close> values that the caller or the planner chose: it wraps.\<close>

definition size_t_add :: "env \<Rightarrow> nat \<Rightarrow> nat \<Rightarrow> nat" where
  "size_t_add e a b = (a + b) mod 2 ^ size_t_bits e"

definition GetSlabAddress :: "env \<Rightarrow> ZebraBlockHeap \<Rightarrow> nat \<Rightarrow> nat" where
  "GetSlabAddress e s index =
     (if index \<ge> slab_count s then 0
      else heap_address s + index * kSlabSize e)"

definition GetSlabIndex :: "env \<Rightarrow> ZebraBlockHeap \<Rightarrow> nat \<Rightarrow> nat" where
  "GetSlabIndex e s address =
     (if address < heap_address s \<or> address \<ge> heap_address s + heap_size s
      then kInvalidSlabIndex e
      else (address - heap_address s) div kSlabSize e)"

subsection \<open>Single-precision arithmetic\<close>

text \<open>
  \<^verbatim>\<open>QuarantineInvariantIsSatisfied\<close> divides in \<^verbatim>\<open>float\<close>: IEEE 754 single precision, a
  significand of 24 bits, every operation rounded to the nearest value, a tie to the
  even significand. A finite non-negative \<^verbatim>\<open>float\<close> is kept as a fraction of two natural
  numbers.

  \<open>float_round a b u d\<close> is the \<^verbatim>\<open>float\<close> nearest to \<open>(a / b) * (u / d)\<close>, for powers of
  two \<open>u\<close> and \<open>d\<close>: the quotient \<open>a / b\<close> is doubled or halved until it lies in
  \<open>[2^23, 2^24)\<close>, the exponent going to \<open>u / d\<close>, and then rounded to an integer, the
  significand. (\<open>8388608 = 2^23\<close>, \<open>16777216 = 2^24\<close>. Quotients of \<^verbatim>\<open>size_t\<close> values
  of at most 64 bits lie between \<open>2^-64\<close> and \<open>2^64\<close>, far from the overflow and the
  subnormal range of the format, which the function leaves out.)
\<close>

function float_round :: "nat \<Rightarrow> nat \<Rightarrow> nat \<Rightarrow> nat \<Rightarrow> nat \<times> nat" where
  "float_round a b u d =
     (if a = 0 \<or> b = 0 then (0, 1)
      else if a < 8388608 * b then float_round (2 * a) b u (2 * d)
      else if 16777216 * b \<le> a then float_round a (2 * b) (2 * u) d
      else (let m = a div b; r = a mod b
            in ((if b < 2 * r \<or> (2 * r = b \<and> odd m) then m + 1 else m) * u, d)))"
  by pat_completeness auto
termination
  by (relation "measure (\<lambda>(a, b, u, d). (8388608 * b - a) + (a + 1 - 16777216 * b))") auto

declare float_round.simps [simp del]

text \<open>
  The conversion of a \<^verbatim>\<open>size_t\<close> to \<^verbatim>\<open>float\<close> (explicit for \<^verbatim>\<open>slab_count_\<close>, implicit
  for \<^verbatim>\<open>quarantine_.size()\<close>), the division, and the comparison with a finite
  \<^verbatim>\<open>float\<close>. A division by zero gives an infinity or a NaN: \<open>None\<close>, which compares
  false.
\<close>

definition float_of_size :: "nat \<Rightarrow> nat \<times> nat" where
  "float_of_size n = float_round n 1 1 1"

definition float_div :: "nat \<times> nat \<Rightarrow> nat \<times> nat \<Rightarrow> (nat \<times> nat) option" where
  "float_div x y =
     (if fst y = 0 then None
      else Some (float_round (fst x * snd y) (snd x * fst y) 1 1))"

definition float_value :: "nat \<times> nat \<Rightarrow> real" where
  "float_value x = real (fst x) / real (snd x)"

definition float_le :: "(nat \<times> nat) option \<Rightarrow> real \<Rightarrow> bool" where
  "float_le x r = (case x of None \<Rightarrow> False | Some v \<Rightarrow> float_value v \<le> r)"

definition QuarantineInvariantIsSatisfied :: "env \<Rightarrow> ZebraBlockHeap \<Rightarrow> bool" where
  "QuarantineInvariantIsSatisfied e s =
     (quarantine s = [] \<or>
      float_le (float_div (float_of_size (length (quarantine s))) (float_of_size (slab_count s)))
        (quarantine_ratio s))"

subsection \<open>Construction\<close>

text \<open>
  The constructor's loop: pass \<open>i\<close> marks slab \<open>i\<close> free, zeroes its descriptor and
  pushes \<open>i\<close> on the free queue. \<open>ctor_loop n s\<close> is the object after passes \<open>0 .. n - 1\<close>.
\<close>

primrec ctor_loop :: "nat \<Rightarrow> ZebraBlockHeap \<Rightarrow> ZebraBlockHeap" where
  "ctor_loop 0 s = s"
| "ctor_loop (Suc i) s =
     (let s' = ctor_loop i s
      in s'\<lparr>slab_info := (slab_info s')[i := \<lparr>state = kFreeSlab, info = zero_info\<rparr>],
            free_slabs := free_slabs s' @ [i]\<rparr>)"

text \<open>
  \<open>ZebraBlockHeap_ctor e heap_size_arg os_address\<close>: \<open>os_address\<close> is what
  \<^verbatim>\<open>VirtualAlloc\<close> answers (\<open>0\<close> when it fails). \<^verbatim>\<open>slab_info_.resize(slab_count_)\<close>
  gives \<open>slab_count\<close> entries, all overwritten by the loop. The notifier is not part of
  the object's state.
\<close>

definition ZebraBlockHeap_ctor :: "env \<Rightarrow> nat \<Rightarrow> nat \<Rightarrow> fault + ZebraBlockHeap" where
  "ZebraBlockHeap_ctor e heap_size_arg os_address =
     (let hs = AlignUp heap_size_arg (kSlabSize e);
          sc = hs div kSlabSize e
      in if os_address = 0 then Inl CheckFailed
         else if dcheck_is_on e \<and> os_address mod GetPageSize e \<noteq> 0 then Inl CheckFailed
         else Inr (ctor_loop sc
                \<lparr>heap_address = os_address, heap_size = hs, slab_count = sc,
                 slab_info = replicate sc \<lparr>state = kFreeSlab, info = zero_info\<rparr>,
                 quarantine_ratio = kDefaultZebraBlockHeapQuarantineRatio e,
                 free_slabs = [], quarantine = []\<rparr>))"

subsection \<open>The byte allocator\<close>

text \<open>
  \<^verbatim>\<open>AllocateImpl\<close> returns a pointer into \<^verbatim>\<open>slab_info_\<close> or \<^verbatim>\<open>NULL\<close>: here the index
  of the entry, or \<open>None\<close>. Addresses inside the region are added without a modulus:
  on a well-formed object (\<open>wf_heap\<close> below) the region ends inside the address space.
  Indexing \<^verbatim>\<open>slab_info_\<close> out of range is undefined in the program; on a well-formed
  object it does not happen.
\<close>

definition AllocateImpl ::
  "env \<Rightarrow> ZebraBlockHeap \<Rightarrow> nat \<Rightarrow> fault + (nat option \<times> ZebraBlockHeap)" where
  "AllocateImpl e s bytes =
     (if bytes = 0 \<or> bytes > GetPageSize e then Inr (None, s)
      else if free_slabs s = [] then Inr (None, s)
      else
        let slab_index = hd (free_slabs s) in
        if dcheck_is_on e \<and> slab_index = kInvalidSlabIndex e then Inl CheckFailed
        else
          let s1 = s\<lparr>free_slabs := tl (free_slabs s)\<rparr>;
              slab_address = GetSlabAddress e s1 slab_index in
          if dcheck_is_on e \<and> slab_address = 0 then Inl CheckFailed
          else
            let alloc = AlignDown (slab_address + GetPageSize e - bytes) (kShadowRatio e)
            in Inr (Some slab_index,
                 s1\<lparr>slab_info := (slab_info s1)[slab_index :=
                      \<lparr>state = kAllocatedSlab,
                       info = \<lparr>block = alloc, block_size = bytes, header_size = 0,
                               trailer_size = 0, is_nested = False\<rparr>\<rparr>]\<rparr>))"

definition Allocate :: "env \<Rightarrow> ZebraBlockHeap \<Rightarrow> nat \<Rightarrow> fault + (nat \<times> ZebraBlockHeap)" where
  "Allocate e s bytes =
     (case AllocateImpl e s bytes of
        Inl f \<Rightarrow> Inl f
      | Inr (None, s') \<Rightarrow> Inr (0, s')
      | Inr (Some i, s') \<Rightarrow> Inr (block (info (slab_info s' ! i)), s'))"

definition Free :: "env \<Rightarrow> ZebraBlockHeap \<Rightarrow> nat \<Rightarrow> fault + (bool \<times> ZebraBlockHeap)" where
  "Free e s alloc =
     (if alloc = 0 then Inr (True, s)
      else
        let slab_index = GetSlabIndex e s alloc in
        if slab_index = kInvalidSlabIndex e then Inr (False, s)
        else if block (info (slab_info s ! slab_index)) \<noteq> alloc then Inr (False, s)
        else if dcheck_is_on e \<and> state (slab_info s ! slab_index) = kQuarantinedSlab
          then Inl CheckFailed
        else if state (slab_info s ! slab_index) = kFreeSlab then Inr (False, s)
        else Inr (True,
               s\<lparr>slab_info := (slab_info s)[slab_index := \<lparr>state = kFreeSlab, info = zero_info\<rparr>],
                 free_slabs := free_slabs s @ [slab_index]\<rparr>))"

definition IsAllocated :: "env \<Rightarrow> ZebraBlockHeap \<Rightarrow> nat \<Rightarrow> bool" where
  "IsAllocated e s alloc =
     (if alloc = 0 then False
      else
        let slab_index = GetSlabIndex e s alloc in
        if slab_index = kInvalidSlabIndex e then False
        else if state (slab_info s ! slab_index) = kFreeSlab then False
        else if block (info (slab_info s ! slab_index)) \<noteq> alloc then False
        else True)"

definition GetAllocationSize :: "env \<Rightarrow> ZebraBlockHeap \<Rightarrow> nat \<Rightarrow> nat" where
  "GetAllocationSize e s alloc =
     (if alloc = 0 then kUnknownSize e
      else
        let slab_index = GetSlabIndex e s alloc in
        if slab_index = kInvalidSlabIndex e then kUnknownSize e
        else if state (slab_info s ! slab_index) = kFreeSlab then kUnknownSize e
        else if block (info (slab_info s ! slab_index)) \<noteq> alloc then kUnknownSize e
        else CompactBlockInfo.block_size (info (slab_info s ! slab_index)))"

subsection \<open>The block layout adapter\<close>

text \<open>
  \<open>AllocateBlock e s size' min_left min_right layout\<close> returns the pointer, the layout
  the caller finds in its out-parameter, the calls made to the planner (their
  arguments, in order), and the object. The out-parameter is a layout here, never a
  null pointer, so the first \<^verbatim>\<open>DCHECK_NE\<close> of the function holds. The two sums of
  planner fields and the sum of the upfront check are \<^verbatim>\<open>size_t\<close> additions.
\<close>

definition AllocateBlock ::
  "env \<Rightarrow> ZebraBlockHeap \<Rightarrow> nat \<Rightarrow> nat \<Rightarrow> nat \<Rightarrow> BlockLayout \<Rightarrow>
   fault + (nat \<times> BlockLayout \<times> (nat \<times> nat \<times> nat \<times> nat \<times> nat) list \<times> ZebraBlockHeap)" where
  "AllocateBlock e s size' min_left_redzone_size min_right_redzone_size layout =
     (if size_t_add e min_left_redzone_size size' > GetPageSize e then Inr (0, layout, [], s)
      else if min_right_redzone_size > GetPageSize e then Inr (0, layout, [], s)
      else
        let args = (GetPageSize e, kShadowRatio e, size', min_left_redzone_size,
                    max (GetPageSize e) min_right_redzone_size);
            planned = BlockPlanLayout e args layout;
            layout' = snd planned in
        if \<not> fst planned then Inr (0, layout', [args], s)
        else if BlockLayout.block_size layout' \<noteq> kSlabSize e then Inr (0, layout', [args], s)
        else
          let right_redzone_size =
                size_t_add e (BlockLayout.trailer_size layout') (trailer_padding_size layout') in
          if right_redzone_size < GetPageSize e then Inr (0, layout', [args], s)
          else if right_redzone_size - GetPageSize e \<ge> kShadowRatio e
            then Inr (0, layout', [args], s)
          else
            (case AllocateImpl e s (GetPageSize e) of
               Inl f \<Rightarrow> Inl f
             | Inr (None, s') \<Rightarrow> Inr (0, layout', [args], s')
             | Inr (Some i, s') \<Rightarrow>
                 let info' = (info (slab_info s' ! i))
                       \<lparr>block_size := BlockLayout.block_size layout',
                        header_size := size_t_add e (BlockLayout.header_size layout')
                                         (header_padding_size layout'),
                        trailer_size := size_t_add e (BlockLayout.trailer_size layout')
                                         (trailer_padding_size layout'),
                        is_nested := False\<rparr>;
                     s'' = s'\<lparr>slab_info := (slab_info s')[i := (slab_info s' ! i)\<lparr>info := info'\<rparr>]\<rparr>;
                     alloc = block info'
                 in if dcheck_is_on e \<and> alloc mod kShadowRatio e \<noteq> 0 then Inl CheckFailed
                    else Inr (alloc, layout', [args], s'')))"

text \<open>\<^verbatim>\<open>FreeBlock\<close> reads one field of its \<^verbatim>\<open>BlockInfo\<close> argument, \<^verbatim>\<open>block\<close>.\<close>

definition FreeBlock :: "env \<Rightarrow> ZebraBlockHeap \<Rightarrow> nat \<Rightarrow> fault + (bool \<times> ZebraBlockHeap)" where
  "FreeBlock e s block_info_block =
     (if dcheck_is_on e \<and> block_info_block = 0 then Inl CheckFailed
      else (case Free e s block_info_block of
              Inl f \<Rightarrow> Inl f
            | Inr (ok, s') \<Rightarrow> if \<not> ok then Inr (False, s') else Inr (True, s')))"

subsection \<open>The quarantine\<close>

definition Push :: "env \<Rightarrow> ZebraBlockHeap \<Rightarrow> CompactBlockInfo \<Rightarrow> bool \<times> ZebraBlockHeap" where
  "Push e s info_arg =
     (let slab_index = GetSlabIndex e s (block info_arg) in
      if slab_index = kInvalidSlabIndex e then (False, s)
      else if state (slab_info s ! slab_index) \<noteq> kAllocatedSlab then (False, s)
      else if info (slab_info s ! slab_index) \<noteq> info_arg then (False, s)
      else (True,
            s\<lparr>quarantine := quarantine s @ [slab_index],
              slab_info := (slab_info s)[slab_index :=
                             (slab_info s ! slab_index)\<lparr>state := kQuarantinedSlab\<rparr>]\<rparr>))"

text \<open>\<open>Pop e s info_arg\<close>: \<open>info_arg\<close> is what the out-parameter held before the call.\<close>

definition Pop ::
  "env \<Rightarrow> ZebraBlockHeap \<Rightarrow> CompactBlockInfo \<Rightarrow>
   fault + (bool \<times> CompactBlockInfo \<times> ZebraBlockHeap)" where
  "Pop e s info_arg =
     (if QuarantineInvariantIsSatisfied e s then Inr (False, info_arg, s)
      else
        let slab_index = hd (quarantine s) in
        if dcheck_is_on e \<and> slab_index = kInvalidSlabIndex e then Inl CheckFailed
        else
          let s1 = s\<lparr>quarantine := tl (quarantine s)\<rparr> in
          if dcheck_is_on e \<and> state (slab_info s1 ! slab_index) \<noteq> kQuarantinedSlab
            then Inl CheckFailed
          else
            let s2 = s1\<lparr>slab_info := (slab_info s1)[slab_index :=
                          (slab_info s1 ! slab_index)\<lparr>state := kAllocatedSlab\<rparr>]\<rparr>
            in Inr (True, info (slab_info s2 ! slab_index), s2))"

text \<open>\<open>Empty e s infos\<close>: the loop runs while the queue is not empty; \<open>infos\<close> is the vector.\<close>

function Empty ::
  "env \<Rightarrow> ZebraBlockHeap \<Rightarrow> CompactBlockInfo list \<Rightarrow>
   fault + (CompactBlockInfo list \<times> ZebraBlockHeap)" where
  "Empty e s infos =
     (if quarantine s = [] then Inr (infos, s)
      else
        let slab_index = hd (quarantine s) in
        if dcheck_is_on e \<and> slab_index = kInvalidSlabIndex e then Inl CheckFailed
        else
          let s1 = s\<lparr>quarantine := tl (quarantine s)\<rparr>;
              s2 = s1\<lparr>slab_info := (slab_info s1)[slab_index :=
                          (slab_info s1 ! slab_index)\<lparr>state := kAllocatedSlab\<rparr>]\<rparr>
          in Empty e s2 (infos @ [info (slab_info s2 ! slab_index)]))"
  by pat_completeness auto
termination
  by (relation "measure (\<lambda>(e, s, infos). length (quarantine s))") auto

declare Empty.simps [simp del]

definition GetCount :: "ZebraBlockHeap \<Rightarrow> nat" where
  "GetCount s = length (quarantine s)"

definition set_quarantine_ratio :: "env \<Rightarrow> ZebraBlockHeap \<Rightarrow> real \<Rightarrow> fault + ZebraBlockHeap" where
  "set_quarantine_ratio e s r =
     (if dcheck_is_on e \<and> \<not> (0 \<le> r \<and> 1 \<ge> r) then Inl CheckFailed
      else Inr (s\<lparr>quarantine_ratio := r\<rparr>))"

subsection \<open>Sequences of calls\<close>

text \<open>
  The public operations that read or change the object, as a client calls them. A run
  stops at the first failed check. (\<^verbatim>\<open>Lock\<close>, \<^verbatim>\<open>Unlock\<close> and \<^verbatim>\<open>TryLock\<close> touch the
  lock only, which a sequential run does not observe.)
\<close>

datatype call =
    CallAllocate nat
  | CallFree nat
  | CallIsAllocated nat
  | CallGetAllocationSize nat
  | CallAllocateBlock nat nat nat BlockLayout
  | CallFreeBlock nat
  | CallPush CompactBlockInfo
  | CallPop CompactBlockInfo
  | CallEmpty "CompactBlockInfo list"
  | CallGetCount
  | CallSetQuarantineRatio real

fun step :: "env \<Rightarrow> ZebraBlockHeap \<Rightarrow> call \<Rightarrow> fault + ZebraBlockHeap" where
  "step e s (CallAllocate bytes) = map_sum id snd (Allocate e s bytes)"
| "step e s (CallFree alloc) = map_sum id snd (Free e s alloc)"
| "step e s (CallIsAllocated alloc) = Inr s"
| "step e s (CallGetAllocationSize alloc) = Inr s"
| "step e s (CallAllocateBlock n l r layout) =
     map_sum id (\<lambda>res. snd (snd (snd res))) (AllocateBlock e s n l r layout)"
| "step e s (CallFreeBlock b) = map_sum id snd (FreeBlock e s b)"
| "step e s (CallPush d) = Inr (snd (Push e s d))"
| "step e s (CallPop d) = map_sum id (\<lambda>res. snd (snd res)) (Pop e s d)"
| "step e s (CallEmpty infos) = map_sum id snd (Empty e s infos)"
| "step e s CallGetCount = Inr s"
| "step e s (CallSetQuarantineRatio r) = set_quarantine_ratio e s r"

fun run :: "env \<Rightarrow> ZebraBlockHeap \<Rightarrow> call list \<Rightarrow> fault + ZebraBlockHeap" where
  "run e s [] = Inr s"
| "run e s (c # cs) = (case step e s c of Inl f \<Rightarrow> Inl f | Inr s' \<Rightarrow> run e s' cs)"

text \<open>
  The contract that \<^verbatim>\<open>Free\<close> asserts: the block handed to it is not in quarantine.
  \<open>frees_quarantined e s alloc\<close> holds when a call \<^verbatim>\<open>Free(alloc)\<close> reaches the assertion
  with a quarantined slab; \<open>contract_kept e s cs\<close> says that no call of the run \<open>cs\<close>
  from \<open>s\<close> does.
\<close>

definition frees_quarantined :: "env \<Rightarrow> ZebraBlockHeap \<Rightarrow> nat \<Rightarrow> bool" where
  "frees_quarantined e s alloc =
     (alloc \<noteq> 0 \<and> GetSlabIndex e s alloc \<noteq> kInvalidSlabIndex e \<and>
      block (info (slab_info s ! GetSlabIndex e s alloc)) = alloc \<and>
      state (slab_info s ! GetSlabIndex e s alloc) = kQuarantinedSlab)"

fun respects_contract :: "env \<Rightarrow> ZebraBlockHeap \<Rightarrow> call \<Rightarrow> bool" where
  "respects_contract e s (CallFree alloc) = (\<not> frees_quarantined e s alloc)"
| "respects_contract e s (CallFreeBlock b) = (\<not> frees_quarantined e s b)"
| "respects_contract e s c = True"

fun contract_kept :: "env \<Rightarrow> ZebraBlockHeap \<Rightarrow> call list \<Rightarrow> bool" where
  "contract_kept e s [] = True"
| "contract_kept e s (c # cs) =
     (respects_contract e s c \<and>
      (case step e s c of Inl f \<Rightarrow> True | Inr s' \<Rightarrow> contract_kept e s' cs))"

subsection \<open>Well-formed objects and slab geometry\<close>

text \<open>
  The constants as the program has them: a positive page size that the shadow ratio
  divides.
\<close>

definition wf_env :: "env \<Rightarrow> bool" where
  "wf_env e = (0 < kShadowRatio e \<and> 0 < GetPageSize e \<and> GetPageSize e mod kShadowRatio e = 0)"

text \<open>
  What the constructor establishes and no member function changes: the region is not
  at address 0, starts on a page boundary, lies inside the address space and holds
  exactly \<open>slab_count\<close> slabs; the table has one entry per slab; the invalid index is
  no slab's index; every queued index is a slab's index. Under \<open>wf_heap\<close> no pointer
  addition of the functions above wraps and no index into \<open>slab_info\<close> is out of range.
\<close>

definition wf_heap :: "env \<Rightarrow> ZebraBlockHeap \<Rightarrow> bool" where
  "wf_heap e s =
     (0 < heap_address s \<and> heap_address s mod GetPageSize e = 0 \<and>
      heap_size s = slab_count s * kSlabSize e \<and>
      heap_address s + heap_size s \<le> 2 ^ size_t_bits e \<and>
      length (slab_info s) = slab_count s \<and>
      slab_count s \<le> kInvalidSlabIndex e \<and>
      (\<forall>i \<in> set (free_slabs s). i < slab_count s) \<and>
      (\<forall>i \<in> set (quarantine s). i < slab_count s))"

text \<open>
  The specification's data model: slab \<open>i\<close> occupies
  \<open>[region_base + i * slab_size, region_base + (i + 1) * slab_size)\<close>, and its first
  page is the even page. \<open>in_slab e s p i\<close>: the address \<open>p\<close> lies in slab \<open>i\<close>.
\<close>

definition slab_base :: "env \<Rightarrow> ZebraBlockHeap \<Rightarrow> nat \<Rightarrow> nat" where
  "slab_base e s i = heap_address s + i * kSlabSize e"

definition in_slab :: "env \<Rightarrow> ZebraBlockHeap \<Rightarrow> nat \<Rightarrow> nat \<Rightarrow> bool" where
  "in_slab e s p i =
     (i < slab_count s \<and> slab_base e s i \<le> p \<and> p < slab_base e s i + kSlabSize e)"

text \<open>
  The invariant of the data model, for one slab: the recorded block address is not null
  and lies in the even page, and the block ends inside the slab.
\<close>

definition block_in_slab :: "env \<Rightarrow> ZebraBlockHeap \<Rightarrow> nat \<Rightarrow> bool" where
  "block_in_slab e s i =
     (block (info (slab_info s ! i)) \<noteq> 0 \<and>
      slab_base e s i \<le> block (info (slab_info s ! i)) \<and>
      block (info (slab_info s ! i)) < slab_base e s i + GetPageSize e \<and>
      block (info (slab_info s ! i)) + CompactBlockInfo.block_size (info (slab_info s ! i))
        \<le> slab_base e s i + kSlabSize e)"

definition blocks_in_slabs :: "env \<Rightarrow> ZebraBlockHeap \<Rightarrow> bool" where
  "blocks_in_slabs e s =
     (\<forall>i < slab_count s. state (slab_info s ! i) \<noteq> kFreeSlab \<longrightarrow> block_in_slab e s i)"

text \<open>
  The inductive invariant behind it: the queues hold distinct indices, the free queue
  only free slabs and the quarantine only quarantined ones.
\<close>

definition heap_inv :: "env \<Rightarrow> ZebraBlockHeap \<Rightarrow> bool" where
  "heap_inv e s =
     (wf_heap e s \<and>
      distinct (free_slabs s) \<and>
      (\<forall>i \<in> set (free_slabs s). state (slab_info s ! i) = kFreeSlab) \<and>
      distinct (quarantine s) \<and>
      (\<forall>i \<in> set (quarantine s). state (slab_info s ! i) = kQuarantinedSlab) \<and>
      blocks_in_slabs e s)"

subsection \<open>A concrete heap\<close>

text \<open>
  The constants of a 32-bit build with pages of 4096 bytes and a shadow ratio of 8, in
  both build flavours (\<open>env0 True\<close> has the \<^verbatim>\<open>DCHECK\<close>s, \<open>env0 False\<close> has not).
  \<open>plan0\<close> is a planner that
  puts a header of 16 bytes in front, the body against the end of the first chunk and a
  trailer over the second.
\<close>

definition plan0 :: "nat \<times> nat \<times> nat \<times> nat \<times> nat \<Rightarrow> BlockLayout \<Rightarrow> bool \<times> BlockLayout" where
  "plan0 args layout =
     (case args of (chunk, alignment, n, l, r) \<Rightarrow>
        (True, \<lparr>BlockLayout.block_size = 2 * chunk, BlockLayout.header_size = 16,
                header_padding_size = chunk - 16 - n,
                BlockLayout.trailer_size = 20, trailer_padding_size = chunk - 20\<rparr>))"

definition env0 :: "bool \<Rightarrow> env" where
  "env0 d =
     \<lparr>GetPageSize = 4096, kShadowRatio = 8, kInvalidSlabIndex = 4294967295,
      kUnknownSize = 4294967295, size_t_bits = 32, dcheck_is_on = d,
      BlockPlanLayout = plan0,
      kDefaultZebraBlockHeapQuarantineRatio = 1 / 2\<rparr>"

definition free_slab :: SlabInfo where
  "free_slab = \<lparr>state = kFreeSlab, info = zero_info\<rparr>"

text \<open>Two slabs at address 65536, as the constructor leaves them.\<close>

definition heap_fresh :: "ZebraBlockHeap" where
  "heap_fresh =
     \<lparr>heap_address = 65536, heap_size = 16384, slab_count = 2,
      slab_info = [free_slab, free_slab], quarantine_ratio = 1 / 2,
      free_slabs = [0, 1], quarantine = []\<rparr>"

text \<open>The descriptor of an allocation of 8 bytes in slab 0, and of one in slab 1.\<close>

definition info8 :: CompactBlockInfo where
  "info8 = \<lparr>block = 69624, block_size = 8, header_size = 0, trailer_size = 0, is_nested = False\<rparr>"

definition info8' :: CompactBlockInfo where
  "info8' = \<lparr>block = 77816, block_size = 8, header_size = 0, trailer_size = 0, is_nested = False\<rparr>"

text \<open>After \<^verbatim>\<open>Allocate(8)\<close>; after two of them; with the first block in quarantine; with both.\<close>

definition heap_one :: "ZebraBlockHeap" where
  "heap_one = heap_fresh\<lparr>slab_info := [\<lparr>state = kAllocatedSlab, info = info8\<rparr>, free_slab],
                          free_slabs := [1]\<rparr>"

definition heap_two :: "ZebraBlockHeap" where
  "heap_two = heap_fresh\<lparr>slab_info := [\<lparr>state = kAllocatedSlab, info = info8\<rparr>,
                                        \<lparr>state = kAllocatedSlab, info = info8'\<rparr>],
                          free_slabs := []\<rparr>"

definition heap_q :: "ZebraBlockHeap" where
  "heap_q = heap_fresh\<lparr>slab_info := [\<lparr>state = kQuarantinedSlab, info = info8\<rparr>, free_slab],
                        free_slabs := [1], quarantine := [0]\<rparr>"

definition heap_qq :: "ZebraBlockHeap" where
  "heap_qq = heap_fresh\<lparr>slab_info := [\<lparr>state = kQuarantinedSlab, info = info8\<rparr>,
                                       \<lparr>state = kQuarantinedSlab, info = info8'\<rparr>],
                         free_slabs := [], quarantine := [0, 1]\<rparr>"

text \<open>
  A layout with every field zero, the layout \<open>plan0\<close> writes for a body of 8 bytes, and
  the fresh heap after \<^verbatim>\<open>AllocateBlock(8, 0, 0, layout)\<close>.
\<close>

definition layout0 :: BlockLayout where
  "layout0 = \<lparr>BlockLayout.block_size = 0, BlockLayout.header_size = 0, header_padding_size = 0,
              BlockLayout.trailer_size = 0, trailer_padding_size = 0\<rparr>"

definition layout8 :: BlockLayout where
  "layout8 = \<lparr>BlockLayout.block_size = 8192, BlockLayout.header_size = 16,
              header_padding_size = 4072, BlockLayout.trailer_size = 20,
              trailer_padding_size = 4076\<rparr>"

definition heap_block :: "ZebraBlockHeap" where
  "heap_block =
     heap_fresh\<lparr>slab_info :=
                  [\<lparr>state = kAllocatedSlab,
                    info = \<lparr>block = 65536, block_size = 8192, header_size = 4088,
                            trailer_size = 4096, is_nested = False\<rparr>\<rparr>, free_slab],
                free_slabs := [1]\<rparr>"

text \<open>
  Two more objects: the heap after \<^verbatim>\<open>Allocate(8)\<close>, \<^verbatim>\<open>AllocateBlock(8, 0, 0, layout)\<close>
  and \<^verbatim>\<open>Push\<close> of the first block; and a heap whose slab 0 is \<open>Allocated\<close> with a zeroed
  descriptor.
\<close>

definition heap_mixed :: "ZebraBlockHeap" where
  "heap_mixed =
     heap_fresh\<lparr>slab_info :=
                  [\<lparr>state = kQuarantinedSlab, info = info8\<rparr>,
                   \<lparr>state = kAllocatedSlab,
                    info = \<lparr>block = 73728, block_size = 8192, header_size = 4088,
                            trailer_size = 4096, is_nested = False\<rparr>\<rparr>],
                free_slabs := [], quarantine := [0]\<rparr>"

definition heap_stale :: "ZebraBlockHeap" where
  "heap_stale =
     heap_fresh\<lparr>slab_info := [\<lparr>state = kAllocatedSlab, info = zero_info\<rparr>, free_slab],
                free_slabs := [1, 0]\<rparr>"

text \<open>
  Six slabs fresh from the constructor.
\<close>

definition heap_six :: ZebraBlockHeap where
  "heap_six =
     \<lparr>heap_address = 65536, heap_size = 49152, slab_count = 6,
      slab_info = [free_slab, free_slab, free_slab, free_slab, free_slab, free_slab],
      quarantine_ratio = 1 / 2,
      free_slabs = [0, 1, 2, 3, 4, 5], quarantine = []\<rparr>"

text \<open>
  Six slabs, five of them in quarantine, and the ratio \<open>13981013 / 2^24\<close>, the
  \<^verbatim>\<open>float\<close> with the bits \<^verbatim>\<open>0x3F555555\<close>, the nearest one below \<open>5 / 6\<close>. \<open>slab8 i\<close> is
  the descriptor of an allocation of 8 bytes in slab \<open>i\<close>.
\<close>

definition slab8 :: "nat \<Rightarrow> CompactBlockInfo" where
  "slab8 i = \<lparr>block = 65536 + i * 8192 + 4088, block_size = 8, header_size = 0,
              trailer_size = 0, is_nested = False\<rparr>"

definition heap_five :: ZebraBlockHeap where
  "heap_five =
     \<lparr>heap_address = 65536, heap_size = 49152, slab_count = 6,
      slab_info = [\<lparr>state = kQuarantinedSlab, info = slab8 0\<rparr>,
                   \<lparr>state = kQuarantinedSlab, info = slab8 1\<rparr>,
                   \<lparr>state = kQuarantinedSlab, info = slab8 2\<rparr>,
                   \<lparr>state = kQuarantinedSlab, info = slab8 3\<rparr>,
                   \<lparr>state = kQuarantinedSlab, info = slab8 4\<rparr>,
                   free_slab],
      quarantine_ratio = 13981013 / 16777216,
      free_slabs = [5], quarantine = [0, 1, 2, 3, 4]\<rparr>"

text \<open>
  The start of a block's body, as the layout has it: after the header and its padding.
\<close>

definition body_start :: "nat \<Rightarrow> BlockLayout \<Rightarrow> nat" where
  "body_start b layout = b + BlockLayout.header_size layout + header_padding_size layout"

section \<open>Properties\<close>

subsection \<open>Resolving an address to its slab\<close>

lemma kSlabSize_twice: "kSlabSize e = GetPageSize e + GetPageSize e"
  by (simp add: kSlabSize_def)

lemma kSlabSize_pos: "wf_env e \<Longrightarrow> 0 < kSlabSize e"
  by (simp add: wf_env_def kSlabSize_def)

lemma GetSlabIndex_valid_iff:
  assumes "wf_env e" "wf_heap e s"
  shows "GetSlabIndex e s p \<noteq> kInvalidSlabIndex e \<longleftrightarrow>
         heap_address s \<le> p \<and> p < heap_address s + heap_size s"
proof -
  have k: "0 < kSlabSize e" using assms(1) by (rule kSlabSize_pos)
  have hs: "heap_size s = slab_count s * kSlabSize e" and le: "slab_count s \<le> kInvalidSlabIndex e"
    using assms(2) by (simp_all add: wf_heap_def)
  show ?thesis
  proof (cases "heap_address s \<le> p \<and> p < heap_address s + heap_size s")
    case True
    then have "p - heap_address s < slab_count s * kSlabSize e" using hs by linarith
    then have "(p - heap_address s) div kSlabSize e < slab_count s"
      using k by (simp add: less_mult_imp_div_less)
    with le True show ?thesis by (simp add: GetSlabIndex_def)
  next
    case False
    then show ?thesis by (auto simp add: GetSlabIndex_def)
  qed
qed

lemma in_slab_GetSlabIndex:
  assumes "wf_env e" "wf_heap e s" "in_slab e s p i"
  shows "GetSlabIndex e s p = i" "i \<noteq> kInvalidSlabIndex e"
proof -
  have k: "0 < kSlabSize e" using assms(1) by (rule kSlabSize_pos)
  have hs: "heap_size s = slab_count s * kSlabSize e" and le: "slab_count s \<le> kInvalidSlabIndex e"
    using assms(2) by (simp_all add: wf_heap_def)
  have i: "i < slab_count s" and lo: "heap_address s + i * kSlabSize e \<le> p"
    and hi: "p < heap_address s + i * kSlabSize e + kSlabSize e"
    using assms(3) by (simp_all add: in_slab_def slab_base_def)
  have "Suc i * kSlabSize e \<le> slab_count s * kSlabSize e"
    using i by (intro mult_le_mono1) simp
  then have inr: "p < heap_address s + heap_size s" using hi hs by simp
  have "i * kSlabSize e \<le> p - heap_address s" "p - heap_address s < Suc i * kSlabSize e"
    using lo hi by simp_all
  then have "(p - heap_address s) div kSlabSize e = i"
    by (intro div_nat_eqI) (simp_all add: mult.commute)
  with lo inr show "GetSlabIndex e s p = i" by (simp add: GetSlabIndex_def)
  show "i \<noteq> kInvalidSlabIndex e" using i le by simp
qed

lemma GetSlabIndex_in_slab:
  assumes "wf_env e" "wf_heap e s" "GetSlabIndex e s p \<noteq> kInvalidSlabIndex e"
  shows "in_slab e s p (GetSlabIndex e s p)"
proof -
  have k: "0 < kSlabSize e" using assms(1) by (rule kSlabSize_pos)
  have hs: "heap_size s = slab_count s * kSlabSize e"
    using assms(2) by (simp_all add: wf_heap_def)
  have r: "heap_address s \<le> p" "p < heap_address s + heap_size s"
    using GetSlabIndex_valid_iff[OF assms(1,2)] assms(3) by simp_all
  then have g: "GetSlabIndex e s p = (p - heap_address s) div kSlabSize e"
    by (simp add: GetSlabIndex_def)
  have "p - heap_address s < slab_count s * kSlabSize e" using r hs by linarith
  then have lt: "(p - heap_address s) div kSlabSize e < slab_count s"
    using k by (simp add: less_mult_imp_div_less)
  have a: "(p - heap_address s) div kSlabSize e * kSlabSize e \<le> p - heap_address s"
    by simp
  have b: "p - heap_address s < (p - heap_address s) div kSlabSize e * kSlabSize e + kSlabSize e"
    using k by (metis add.commute dividend_less_div_times)
  show ?thesis using lt a b r unfolding g in_slab_def slab_base_def by linarith
qed

lemma resolves_iff:
  assumes "wf_env e" "wf_heap e s"
  shows "in_slab e s p i \<longleftrightarrow> (GetSlabIndex e s p \<noteq> kInvalidSlabIndex e \<and> GetSlabIndex e s p = i)"
  using in_slab_GetSlabIndex[OF assms] GetSlabIndex_in_slab[OF assms] by blast

subsection \<open>The concrete heap\<close>

lemmas fixture_defs = env0_def heap_fresh_def heap_one_def heap_two_def heap_q_def heap_qq_def
  info8_def info8'_def free_slab_def zero_info_def plan0_def layout0_def layout8_def heap_block_def
  heap_mixed_def heap_stale_def heap_five_def heap_six_def slab8_def

lemma wf_env0: "wf_env (env0 d)"
  by (simp add: wf_env_def env0_def)

lemma wf_heap_fresh: "wf_heap (env0 d) heap_fresh"
  by (simp add: wf_heap_def fixture_defs kSlabSize_def)

lemma wf_heap_one: "wf_heap (env0 d) heap_one"
  by (simp add: wf_heap_def fixture_defs kSlabSize_def)

lemma wf_heap_two: "wf_heap (env0 d) heap_two"
  by (simp add: wf_heap_def fixture_defs kSlabSize_def)

lemma wf_heap_q: "wf_heap (env0 d) heap_q"
  by (simp add: wf_heap_def fixture_defs kSlabSize_def)

lemma wf_heap_qq: "wf_heap (env0 d) heap_qq"
  by (simp add: wf_heap_def fixture_defs kSlabSize_def)

lemma ctor_fresh: "ZebraBlockHeap_ctor (env0 d) 16384 65536 = Inr heap_fresh"
  by (simp add: ZebraBlockHeap_ctor_def AlignUp_def kSlabSize_def fixture_defs numeral_2_eq_2)

lemma Allocate_fresh: "Allocate (env0 d) heap_fresh 8 = Inr (69624, heap_one)"
  by (simp add: Allocate_def AllocateImpl_def GetSlabAddress_def AlignDown_def kSlabSize_def
      fixture_defs)

lemma Allocate_one: "Allocate (env0 d) heap_one 8 = Inr (77816, heap_two)"
  by (simp add: Allocate_def AllocateImpl_def GetSlabAddress_def AlignDown_def kSlabSize_def
      fixture_defs)

lemma Push_one: "Push (env0 d) heap_one info8 = (True, heap_q)"
  by (simp add: Push_def GetSlabIndex_def kSlabSize_def fixture_defs)

subsection \<open>Alignment and the byte allocator\<close>

lemma AlignDown_le: "AlignDown x a \<le> x"
  by (simp add: AlignDown_def)

lemma AlignDown_mod: "AlignDown x a mod a = 0"
  by (simp add: AlignDown_def minus_mod_eq_mult_div)

lemma AlignDown_ge:
  assumes "b mod a = 0" "b \<le> x"
  shows "b \<le> AlignDown x a"
proof -
  have "b = a * (b div a)" using assms(1) by (auto simp add: mod_eq_0_iff_dvd)
  moreover have "AlignDown x a = a * (x div a)"
    by (simp add: AlignDown_def minus_mod_eq_mult_div)
  moreover have "b div a \<le> x div a" using assms(2) by (rule div_le_mono)
  ultimately show ?thesis by (metis mult_le_mono2)
qed

lemma slab_base_aligned:
  assumes "wf_env e" "wf_heap e s"
  shows "slab_base e s i mod kShadowRatio e = 0"
proof -
  have a: "kShadowRatio e dvd GetPageSize e" using assms(1) by (simp add: wf_env_def mod_eq_0_iff_dvd)
  have b: "GetPageSize e dvd heap_address s" using assms(2) by (simp add: wf_heap_def mod_eq_0_iff_dvd)
  have "kShadowRatio e dvd heap_address s + i * (2 * GetPageSize e)"
    using a b by (meson dvd_add dvd_mult dvd_trans)
  then show ?thesis by (simp add: slab_base_def kSlabSize_def mod_eq_0_iff_dvd)
qed

lemma slab_base_pos: "wf_heap e s \<Longrightarrow> 0 < slab_base e s i"
  by (simp add: wf_heap_def slab_base_def)

lemma GetSlabAddress_slab_base:
  "i < slab_count s \<Longrightarrow> GetSlabAddress e s i = slab_base e s i"
  by (simp add: GetSlabAddress_def slab_base_def)

lemma AllocateImpl_wf:
  assumes "wf_env e" "wf_heap e s"
  shows "AllocateImpl e s bytes =
     (if bytes = 0 \<or> bytes > GetPageSize e \<or> free_slabs s = [] then Inr (None, s)
      else Inr (Some (hd (free_slabs s)),
             s\<lparr>free_slabs := tl (free_slabs s),
               slab_info := (slab_info s)[hd (free_slabs s) :=
                 \<lparr>state = kAllocatedSlab,
                  info = \<lparr>block = AlignDown (slab_base e s (hd (free_slabs s)) + GetPageSize e - bytes)
                                   (kShadowRatio e),
                          block_size = bytes, header_size = 0, trailer_size = 0,
                          is_nested = False\<rparr>\<rparr>]\<rparr>))"
proof (cases "bytes = 0 \<or> bytes > GetPageSize e \<or> free_slabs s = []")
  case True
  then show ?thesis by (auto simp add: AllocateImpl_def)
next
  case False
  then have ne: "free_slabs s \<noteq> []" by simp
  then have "hd (free_slabs s) \<in> set (free_slabs s)" by simp
  then have lt: "hd (free_slabs s) < slab_count s" using assms(2) by (simp add: wf_heap_def)
  then have inv: "hd (free_slabs s) \<noteq> kInvalidSlabIndex e" using assms(2) by (auto simp add: wf_heap_def)
  have pos: "slab_base e s (hd (free_slabs s)) \<noteq> 0" using slab_base_pos[OF assms(2)] by simp
  show ?thesis using False lt inv pos
    by (simp add: AllocateImpl_def Let_def GetSlabAddress_def slab_base_def)
qed

lemma block_position:
  assumes "wf_env e" "wf_heap e s" "0 < bytes" "bytes \<le> GetPageSize e"
  shows "slab_base e s i \<le> AlignDown (slab_base e s i + GetPageSize e - bytes) (kShadowRatio e)"
    and "AlignDown (slab_base e s i + GetPageSize e - bytes) (kShadowRatio e) < slab_base e s i + GetPageSize e"
    and "AlignDown (slab_base e s i + GetPageSize e - bytes) (kShadowRatio e) + bytes \<le> slab_base e s i + GetPageSize e"
    and "AlignDown (slab_base e s i + GetPageSize e - bytes) (kShadowRatio e) \<noteq> 0"
proof -
  let ?a = "AlignDown (slab_base e s i + GetPageSize e - bytes) (kShadowRatio e)"
  show lo: "slab_base e s i \<le> ?a"
    using assms(4) by (intro AlignDown_ge slab_base_aligned[OF assms(1,2)]) simp
  have le: "?a \<le> slab_base e s i + GetPageSize e - bytes" by (rule AlignDown_le)
  then show "?a < slab_base e s i + GetPageSize e" using assms(3,4) by linarith
  show "?a + bytes \<le> slab_base e s i + GetPageSize e" using le assms(3,4) by linarith
  show "?a \<noteq> 0" using lo slab_base_pos[OF assms(2), of i] by linarith
qed

lemma Allocate_wf:
  assumes "wf_env e" "wf_heap e s"
  shows "Allocate e s bytes =
     (if bytes = 0 \<or> bytes > GetPageSize e \<or> free_slabs s = [] then Inr (0, s)
      else Inr (AlignDown (slab_base e s (hd (free_slabs s)) + GetPageSize e - bytes) (kShadowRatio e),
             s\<lparr>free_slabs := tl (free_slabs s),
               slab_info := (slab_info s)[hd (free_slabs s) :=
                 \<lparr>state = kAllocatedSlab,
                  info = \<lparr>block = AlignDown (slab_base e s (hd (free_slabs s)) + GetPageSize e - bytes)
                                   (kShadowRatio e),
                          block_size = bytes, header_size = 0, trailer_size = 0,
                          is_nested = False\<rparr>\<rparr>]\<rparr>))"
proof (cases "bytes = 0 \<or> bytes > GetPageSize e \<or> free_slabs s = []")
  case True
  then show ?thesis by (auto simp add: Allocate_def AllocateImpl_wf[OF assms])
next
  case False
  then have "hd (free_slabs s) \<in> set (free_slabs s)" by simp
  then have lt: "hd (free_slabs s) < length (slab_info s)" using assms(2) by (simp add: wf_heap_def)
  show ?thesis using False lt by (simp add: Allocate_def AllocateImpl_wf[OF assms])
qed

subsection \<open>Allocate\<close>

text \<open>
  C4. On a well-formed heap, \<^verbatim>\<open>Allocate(bytes)\<close> returns null and leaves the object as
  it was exactly when \<open>bytes = 0\<close>, \<open>bytes > page_size\<close> or the free queue is empty.
  Otherwise it takes the head of the free queue and returns the address
  \<open>slab base + page_size - bytes\<close> rounded down to a multiple of the shadow ratio; the
  slab becomes \<open>Allocated\<close> with that block address, \<open>block_size = bytes\<close>, header and
  trailer sizes zero and the nested flag false; the address is not null.
\<close>

theorem Allocate_null_or_placed:
  assumes "wf_env e" "wf_heap e s"
  shows "Allocate e s bytes =
     (if bytes = 0 \<or> bytes > GetPageSize e \<or> free_slabs s = [] then Inr (0, s)
      else Inr (AlignDown (slab_base e s (hd (free_slabs s)) + GetPageSize e - bytes) (kShadowRatio e),
             s\<lparr>free_slabs := tl (free_slabs s),
               slab_info := (slab_info s)[hd (free_slabs s) :=
                 \<lparr>state = kAllocatedSlab,
                  info = \<lparr>block = AlignDown (slab_base e s (hd (free_slabs s)) + GetPageSize e - bytes)
                                   (kShadowRatio e),
                          block_size = bytes, header_size = 0, trailer_size = 0,
                          is_nested = False\<rparr>\<rparr>]\<rparr>))
   \<and> ((\<exists>s'. Allocate e s bytes = Inr (0, s')) \<longleftrightarrow>
        bytes = 0 \<or> bytes > GetPageSize e \<or> free_slabs s = [])"
proof (cases "bytes = 0 \<or> bytes > GetPageSize e \<or> free_slabs s = []")
  case True
  then show ?thesis by (auto simp add: Allocate_wf[OF assms])
next
  case False
  then have b: "0 < bytes" "bytes \<le> GetPageSize e" by simp_all
  have nz: "AlignDown (slab_base e s (hd (free_slabs s)) + GetPageSize e - bytes) (kShadowRatio e) \<noteq> 0"
    by (rule block_position(4)[OF assms b])
  show ?thesis using False nz by (simp add: Allocate_wf[OF assms])
qed

theorem Allocate_null_or_placed_witness:
  "wf_env (env0 True) \<and> wf_heap (env0 True) heap_fresh \<and>
   Allocate (env0 True) heap_fresh 8 = Inr (69624, heap_one) \<and>
   Allocate (env0 True) heap_fresh 0 = Inr (0, heap_fresh) \<and>
   Allocate (env0 True) heap_fresh 4097 = Inr (0, heap_fresh) \<and>
   Allocate (env0 True) heap_two 8 = Inr (0, heap_two)"
proof -
  have e: "wf_env (env0 True)" by (simp add: wf_env_def env0_def)
  have h: "wf_heap (env0 True) heap_fresh"
    by (simp add: wf_heap_def fixture_defs kSlabSize_def)
  have h2: "wf_heap (env0 True) heap_two"
    by (simp add: wf_heap_def fixture_defs kSlabSize_def)
  have a: "Allocate (env0 True) heap_fresh 8 = Inr (69624, heap_one)"
    using Allocate_null_or_placed[OF e h, of 8]
    by (simp add: slab_base_def AlignDown_def kSlabSize_def fixture_defs)
  have b: "Allocate (env0 True) heap_fresh 0 = Inr (0, heap_fresh)"
    using Allocate_null_or_placed[OF e h, of 0] by simp
  have c: "Allocate (env0 True) heap_fresh 4097 = Inr (0, heap_fresh)"
    using Allocate_null_or_placed[OF e h, of 4097] by (simp add: env0_def)
  have d: "Allocate (env0 True) heap_two 8 = Inr (0, heap_two)"
    using Allocate_null_or_placed[OF e h2, of 8] by (simp add: heap_two_def)
  show ?thesis using e h a b c d by simp
qed

subsection \<open>IsAllocated and GetAllocationSize\<close>

lemma GetSlabIndex_frame:
  "heap_address s' = heap_address s \<Longrightarrow> heap_size s' = heap_size s \<Longrightarrow>
   GetSlabIndex e s' p = GetSlabIndex e s p"
  by (simp add: GetSlabIndex_def)

lemma in_slab_frame:
  "heap_address s' = heap_address s \<Longrightarrow> slab_count s' = slab_count s \<Longrightarrow>
   in_slab e s' p i = in_slab e s p i"
  by (simp add: in_slab_def slab_base_def)

lemma in_slab_not_null: "wf_heap e s \<Longrightarrow> in_slab e s p i \<Longrightarrow> p \<noteq> 0"
  using slab_base_pos[of e s i] by (auto simp add: in_slab_def)

lemma in_slab_index: "wf_heap e s \<Longrightarrow> in_slab e s p i \<Longrightarrow> i < length (slab_info s)"
  by (simp add: in_slab_def wf_heap_def)

lemma IsAllocated_wf:
  assumes "wf_env e" "wf_heap e s"
  shows "IsAllocated e s p \<longleftrightarrow>
    (\<exists>i. in_slab e s p i \<and> state (slab_info s ! i) \<noteq> kFreeSlab \<and>
         block (info (slab_info s ! i)) = p)"
proof (cases "p = 0")
  case True
  then show ?thesis using in_slab_not_null[OF assms(2)] by (auto simp add: IsAllocated_def)
next
  case False
  then show ?thesis
    by (auto simp add: IsAllocated_def Let_def resolves_iff[OF assms])
qed

lemma GetAllocationSize_wf:
  assumes "wf_env e" "wf_heap e s"
  shows "GetAllocationSize e s p =
    (if IsAllocated e s p
     then CompactBlockInfo.block_size (info (slab_info s ! GetSlabIndex e s p))
     else kUnknownSize e)"
  by (auto simp add: GetAllocationSize_def IsAllocated_def Let_def)

lemma in_slab_q0: "in_slab (env0 d) heap_q 69624 0"
  by (simp add: in_slab_def slab_base_def kSlabSize_def fixture_defs)

text \<open>
  C2, as the code has it. On a well-formed heap, \<^verbatim>\<open>IsAllocated(p)\<close> is true exactly when
  \<open>p\<close> lies in a slab whose state is not \<open>Free\<close> (it is \<open>Allocated\<close> or
  \<open>Quarantined\<close>) and whose recorded block address equals \<open>p\<close>;
  \<^verbatim>\<open>GetAllocationSize(p)\<close> returns the recorded \<open>block_size\<close> under that same
  condition and the unknown-size sentinel otherwise. (The null pointer lies in no slab.)
\<close>
theorem IsAllocated_exact_match:
  assumes "wf_env e" "wf_heap e s"
  shows "(IsAllocated e s p \<longleftrightarrow>
            (\<exists>i. in_slab e s p i \<and> state (slab_info s ! i) \<noteq> kFreeSlab \<and>
                 block (info (slab_info s ! i)) = p))
       \<and> (\<forall>i. in_slab e s p i \<and> state (slab_info s ! i) \<noteq> kFreeSlab \<and>
               block (info (slab_info s ! i)) = p \<longrightarrow>
               GetAllocationSize e s p = CompactBlockInfo.block_size (info (slab_info s ! i)))
       \<and> (\<not> IsAllocated e s p \<longrightarrow> GetAllocationSize e s p = kUnknownSize e)"
proof (intro conjI allI impI)
  show "IsAllocated e s p \<longleftrightarrow>
    (\<exists>i. in_slab e s p i \<and> state (slab_info s ! i) \<noteq> kFreeSlab \<and>
         block (info (slab_info s ! i)) = p)"
    by (rule IsAllocated_wf[OF assms])
next
  fix i
  assume h: "in_slab e s p i \<and> state (slab_info s ! i) \<noteq> kFreeSlab \<and>
    block (info (slab_info s ! i)) = p"
  then have "IsAllocated e s p" using IsAllocated_wf[OF assms] by blast
  moreover have "GetSlabIndex e s p = i" using h in_slab_GetSlabIndex(1)[OF assms] by blast
  ultimately show "GetAllocationSize e s p = CompactBlockInfo.block_size (info (slab_info s ! i))"
    by (simp add: GetAllocationSize_wf[OF assms])
next
  assume "\<not> IsAllocated e s p"
  then show "GetAllocationSize e s p = kUnknownSize e"
    by (simp add: GetAllocationSize_wf[OF assms])
qed

theorem IsAllocated_exact_match_witness:
  "wf_env (env0 True) \<and> wf_heap (env0 True) heap_q \<and>
   in_slab (env0 True) heap_q 69624 0 \<and>
   IsAllocated (env0 True) heap_q 69624 \<and>
   GetAllocationSize (env0 True) heap_q 69624 = 8 \<and>
   \<not> IsAllocated (env0 True) heap_q 69625 \<and>
   GetAllocationSize (env0 True) heap_q 69625 = 4294967295"
proof -
  note t = IsAllocated_exact_match[OF wf_env0[of True] wf_heap_q[of True]]
  have a: "IsAllocated (env0 True) heap_q 69624"
    using t[of 69624] in_slab_q0[of True] by (auto simp add: fixture_defs)
  have b: "GetAllocationSize (env0 True) heap_q 69624 = 8"
    using t[of 69624] in_slab_q0[of True] by (auto simp add: fixture_defs)
  have c: "\<not> IsAllocated (env0 True) heap_q 69625"
    by (simp add: IsAllocated_def GetSlabIndex_def kSlabSize_def fixture_defs)
  have d: "GetAllocationSize (env0 True) heap_q 69625 = 4294967295"
    using t[of 69625] c by (simp add: env0_def)
  show ?thesis using wf_env0 wf_heap_q in_slab_q0 a b c d by simp
qed

text \<open>
  The claim asks for the state \<open>Allocated\<close>. A block that was pushed into quarantine
  still counts: after \<^verbatim>\<open>Allocate(8)\<close> and \<^verbatim>\<open>Push\<close> of its descriptor the slab is
  \<open>Quarantined\<close>, and both queries answer as for an allocated block.
\<close>

theorem IsAllocated_quarantined_counterexample:
  "Allocate (env0 True) heap_fresh 8 = Inr (69624, heap_one) \<and>
   Push (env0 True) heap_one info8 = (True, heap_q) \<and>
   in_slab (env0 True) heap_q 69624 0 \<and>
   block (info (slab_info heap_q ! 0)) = 69624 \<and>
   state (slab_info heap_q ! 0) = kQuarantinedSlab \<and>
   state (slab_info heap_q ! 0) \<noteq> kAllocatedSlab \<and>
   IsAllocated (env0 True) heap_q 69624 \<and>
   GetAllocationSize (env0 True) heap_q 69624 = 8 \<and>
   kUnknownSize (env0 True) \<noteq> 8"
proof -
  have "IsAllocated (env0 True) heap_q 69624"
    by (simp add: IsAllocated_def GetSlabIndex_def kSlabSize_def fixture_defs)
  moreover have "GetAllocationSize (env0 True) heap_q 69624 = 8"
    by (simp add: GetAllocationSize_def GetSlabIndex_def kSlabSize_def fixture_defs)
  moreover have "state (slab_info heap_q ! 0) = kQuarantinedSlab"
    "block (info (slab_info heap_q ! 0)) = 69624" "kUnknownSize (env0 True) \<noteq> 8"
    by (simp_all add: fixture_defs)
  ultimately show ?thesis using Allocate_fresh Push_one in_slab_q0 by simp
qed

lemma wf_heap_frame:
  assumes "wf_heap e s" "heap_address s' = heap_address s" "heap_size s' = heap_size s"
    "slab_count s' = slab_count s" "length (slab_info s') = length (slab_info s)"
    "set (free_slabs s') \<subseteq> set (free_slabs s) \<union> {i. i < slab_count s}"
    "set (quarantine s') \<subseteq> set (quarantine s) \<union> {i. i < slab_count s}"
  shows "wf_heap e s'"
  using assms unfolding wf_heap_def by auto

text \<open>
  C10. On a well-formed heap, for \<open>0 < bytes \<le> page_size\<close>: when \<^verbatim>\<open>Allocate(bytes)\<close>
  returns a non-null pointer \<open>p\<close>, then right after it \<^verbatim>\<open>IsAllocated(p)\<close> is true and
  \<^verbatim>\<open>GetAllocationSize(p)\<close> is \<open>bytes\<close>, the size that was asked for.
\<close>
theorem Allocate_then_IsAllocated:
  assumes "wf_env e" "wf_heap e s" "0 < bytes" "bytes \<le> GetPageSize e"
    and "Allocate e s bytes = Inr (p, s')" "p \<noteq> 0"
  shows "IsAllocated e s' p \<and> GetAllocationSize e s' p = bytes"
proof -
  let ?i = "hd (free_slabs s)"
  let ?a = "AlignDown (slab_base e s ?i + GetPageSize e - bytes) (kShadowRatio e)"
  have ne: "free_slabs s \<noteq> []" using assms(3-6) by (auto simp add: Allocate_wf[OF assms(1,2)])
  then have p: "p = ?a"
    and s': "s' = s\<lparr>free_slabs := tl (free_slabs s),
               slab_info := (slab_info s)[?i :=
                 \<lparr>state = kAllocatedSlab,
                  info = \<lparr>block = ?a, block_size = bytes, header_size = 0, trailer_size = 0,
                          is_nested = False\<rparr>\<rparr>]\<rparr>"
    using assms(3-5) by (auto simp add: Allocate_wf[OF assms(1,2)])
  have "?i \<in> set (free_slabs s)" using ne by simp
  then have i: "?i < slab_count s" using assms(2) by (simp add: wf_heap_def)
  then have len: "?i < length (slab_info s)" using assms(2) by (simp add: wf_heap_def)
  have wf': "wf_heap e s'"
    using ne by (intro wf_heap_frame[OF assms(2)]) (auto simp add: s' dest: list.set_sel(2))
  have "in_slab e s p ?i"
    using block_position(1,2)[OF assms(1-4), of ?i] i
    by (simp add: in_slab_def p kSlabSize_def)
  then have "in_slab e s' p ?i" by (simp add: in_slab_def slab_base_def s')
  moreover have "state (slab_info s' ! ?i) \<noteq> kFreeSlab" "block (info (slab_info s' ! ?i)) = p"
    "CompactBlockInfo.block_size (info (slab_info s' ! ?i)) = bytes"
    using len by (simp_all add: s' p)
  ultimately show ?thesis
    using IsAllocated_wf[OF assms(1) wf', of p] GetAllocationSize_wf[OF assms(1) wf', of p]
      in_slab_GetSlabIndex(1)[OF assms(1) wf', of p ?i]
    by auto
qed

theorem Allocate_then_IsAllocated_witness:
  "wf_env (env0 True) \<and> wf_heap (env0 True) heap_fresh \<and> (0::nat) < 8 \<and>
   8 \<le> GetPageSize (env0 True) \<and>
   Allocate (env0 True) heap_fresh 8 = Inr (69624, heap_one) \<and> (69624::nat) \<noteq> 0 \<and>
   IsAllocated (env0 True) heap_one 69624 \<and> GetAllocationSize (env0 True) heap_one 69624 = 8"
proof -
  have p: "8 \<le> GetPageSize (env0 True)" by (simp add: env0_def)
  show ?thesis
    using Allocate_then_IsAllocated[OF wf_env0[of True] wf_heap_fresh[of True] _ p Allocate_fresh[of True]]
       wf_env0 wf_heap_fresh Allocate_fresh p
    by simp
qed

subsection \<open>Free\<close>

lemma in_slab_unique:
  assumes "wf_env e" "wf_heap e s"
  shows "in_slab e s p i \<longleftrightarrow> GetSlabIndex e s p \<noteq> kInvalidSlabIndex e \<and> i = GetSlabIndex e s p"
  using resolves_iff[OF assms] by auto

text \<open>
  C1, as the code has it. On a well-formed heap, \<^verbatim>\<open>Free(NULL)\<close> returns true and changes
  nothing. For a non-null pointer, \<^verbatim>\<open>Free\<close> returns false with the object unchanged
  exactly when the pointer lies in no slab, or differs from the slab's recorded block
  address, or the slab is \<open>Free\<close>; it never returns false with a changed object. When the
  pointer is the recorded block address of an \<open>Allocated\<close> slab, \<^verbatim>\<open>Free\<close> returns true,
  zeroes the descriptor, sets the state to \<open>Free\<close> and appends the index to the free
  queue. When it is the recorded block address of a \<open>Quarantined\<close> slab, \<^verbatim>\<open>Free\<close> does
  not return false: the call breaks the asserted contract, and a build with the
  assertions stops there.
\<close>

theorem Free_results:
  assumes "wf_env e" "wf_heap e s"
  shows "Free e s 0 = Inr (True, s)
    \<and> (p \<noteq> 0 \<longrightarrow>
         (Free e s p = Inr (False, s) \<longleftrightarrow>
          \<not> (\<exists>i. in_slab e s p i \<and> block (info (slab_info s ! i)) = p \<and>
                   state (slab_info s ! i) \<noteq> kFreeSlab)))
    \<and> (\<forall>s'. Free e s p = Inr (False, s') \<longrightarrow> s' = s)
    \<and> (\<forall>i. in_slab e s p i \<and> block (info (slab_info s ! i)) = p \<and>
             state (slab_info s ! i) = kAllocatedSlab \<longrightarrow>
           Free e s p = Inr (True,
             s\<lparr>slab_info := (slab_info s)[i := \<lparr>state = kFreeSlab, info = zero_info\<rparr>],
               free_slabs := free_slabs s @ [i]\<rparr>))
    \<and> (\<forall>i. in_slab e s p i \<and> block (info (slab_info s ! i)) = p \<and>
             state (slab_info s ! i) = kQuarantinedSlab \<and> dcheck_is_on e \<longrightarrow>
           Free e s p = Inl CheckFailed)"
proof -
  note u = in_slab_unique[OF assms]
  have n: "\<And>i. in_slab e s p i \<Longrightarrow> p \<noteq> 0" using in_slab_not_null[OF assms(2)] by blast
  have a: "Free e s 0 = Inr (True, s)" by (simp add: Free_def)
  have b: "p \<noteq> 0 \<longrightarrow>
         (Free e s p = Inr (False, s) \<longleftrightarrow>
          \<not> (\<exists>i. in_slab e s p i \<and> block (info (slab_info s ! i)) = p \<and>
                   state (slab_info s ! i) \<noteq> kFreeSlab))"
    by (cases "state (slab_info s ! GetSlabIndex e s p)") (auto simp add: Free_def Let_def u)
  have c: "\<forall>s'. Free e s p = Inr (False, s') \<longrightarrow> s' = s"
    by (auto simp add: Free_def Let_def split: if_splits)
  have d: "\<forall>i. in_slab e s p i \<and> block (info (slab_info s ! i)) = p \<and>
             state (slab_info s ! i) = kAllocatedSlab \<longrightarrow>
           Free e s p = Inr (True,
             s\<lparr>slab_info := (slab_info s)[i := \<lparr>state = kFreeSlab, info = zero_info\<rparr>],
               free_slabs := free_slabs s @ [i]\<rparr>)"
    using n by (auto simp add: Free_def Let_def u)
  have f: "\<forall>i. in_slab e s p i \<and> block (info (slab_info s ! i)) = p \<and>
             state (slab_info s ! i) = kQuarantinedSlab \<and> dcheck_is_on e \<longrightarrow>
           Free e s p = Inl CheckFailed"
    using n by (auto simp add: Free_def Let_def u)
  show ?thesis using a b c d f by blast
qed

lemma GetSlabIndex_one:
  "GetSlabIndex (env0 d) heap_one 69625 = 0" "GetSlabIndex (env0 d) heap_one 77816 = 1"
  by (simp_all add: GetSlabIndex_def kSlabSize_def fixture_defs)

lemma in_slab_one0: "in_slab (env0 d) heap_one 69624 0"
  by (simp add: in_slab_def slab_base_def kSlabSize_def fixture_defs)

theorem Free_results_witness:
  "wf_env (env0 True) \<and> wf_heap (env0 True) heap_one \<and> in_slab (env0 True) heap_one 69624 0 \<and>
   Free (env0 True) heap_one 0 = Inr (True, heap_one) \<and>
   Free (env0 True) heap_one 69624 = Inr (True, heap_fresh\<lparr>free_slabs := [1, 0]\<rparr>) \<and>
   Free (env0 True) heap_one 69625 = Inr (False, heap_one) \<and>
   Free (env0 True) heap_q 69624 = Inl CheckFailed"
proof -
  note t = Free_results[OF wf_env0[of True] wf_heap_one[of True]]
  note q = Free_results[OF wf_env0[of True] wf_heap_q[of True]]
  have a: "Free (env0 True) heap_one 0 = Inr (True, heap_one)" using t by blast
  have b: "Free (env0 True) heap_one 69624 = Inr (True, heap_fresh\<lparr>free_slabs := [1, 0]\<rparr>)"
    using t[of 69624] in_slab_one0[of True] by (auto simp add: fixture_defs)
  have "\<not> (\<exists>i. in_slab (env0 True) heap_one 69625 i \<and>
          block (info (slab_info heap_one ! i)) = 69625 \<and>
          state (slab_info heap_one ! i) \<noteq> kFreeSlab)"
  proof -
    have "\<And>i. in_slab (env0 True) heap_one 69625 i \<Longrightarrow> i = 0"
      using GetSlabIndex_one(1)[of True] by (simp add: in_slab_unique[OF wf_env0 wf_heap_one])
    moreover have "block (info (slab_info heap_one ! 0)) \<noteq> 69625" by (simp add: fixture_defs)
    ultimately show ?thesis by auto
  qed
  then have c: "Free (env0 True) heap_one 69625 = Inr (False, heap_one)"
    using t[of 69625] by simp
  have d: "Free (env0 True) heap_q 69624 = Inl CheckFailed"
    using q[of 69624] in_slab_q0[of True] by (auto simp add: fixture_defs)
  show ?thesis using wf_env0 wf_heap_one in_slab_one0 a b c d by simp
qed

text \<open>
  The claim has \<^verbatim>\<open>Free\<close> return false for a quarantined block. It does not: with the
  assertions the call stops the process, without them it returns true, marks the slab
  free and queues it, while its index stays in the quarantine.
\<close>

theorem Free_quarantined_counterexample:
  "in_slab (env0 True) heap_q 69624 0 \<and>
   block (info (slab_info heap_q ! 0)) = 69624 \<and>
   state (slab_info heap_q ! 0) = kQuarantinedSlab \<and>
   Free (env0 True) heap_q 69624 = Inl CheckFailed \<and>
   Free (env0 False) heap_q 69624 =
     Inr (True, heap_q\<lparr>slab_info := [free_slab, free_slab], free_slabs := [1, 0]\<rparr>)"
proof -
  have "Free (env0 True) heap_q 69624 = Inl CheckFailed"
    by (simp add: Free_def GetSlabIndex_def kSlabSize_def fixture_defs)
  moreover have "Free (env0 False) heap_q 69624 =
     Inr (True, heap_q\<lparr>slab_info := [free_slab, free_slab], free_slabs := [1, 0]\<rparr>)"
    by (simp add: Free_def GetSlabIndex_def kSlabSize_def fixture_defs)
  moreover have "block (info (slab_info heap_q ! 0)) = 69624"
    "state (slab_info heap_q ! 0) = kQuarantinedSlab"
    by (simp_all add: fixture_defs)
  ultimately show ?thesis using in_slab_q0 by simp
qed

subsection \<open>Push\<close>

text \<open>
  C5. On a well-formed heap, \<^verbatim>\<open>Push(descriptor)\<close> succeeds exactly when the descriptor's
  block address lies in a slab whose state is \<open>Allocated\<close> and whose stored descriptor
  equals the one supplied. On success it appends that slab's index to the tail of the
  quarantine queue and sets the slab's state to \<open>Quarantined\<close>, changing nothing else;
  on failure it returns the object unchanged.
\<close>

theorem Push_succeeds_iff:
  assumes "wf_env e" "wf_heap e s"
  shows "(fst (Push e s d) \<longleftrightarrow>
           (\<exists>i. in_slab e s (block d) i \<and> state (slab_info s ! i) = kAllocatedSlab \<and>
                info (slab_info s ! i) = d))
    \<and> (\<forall>i. in_slab e s (block d) i \<and> state (slab_info s ! i) = kAllocatedSlab \<and>
            info (slab_info s ! i) = d \<longrightarrow>
          Push e s d = (True,
            s\<lparr>quarantine := quarantine s @ [i],
              slab_info := (slab_info s)[i := (slab_info s ! i)\<lparr>state := kQuarantinedSlab\<rparr>]\<rparr>))
    \<and> (\<not> fst (Push e s d) \<longrightarrow> Push e s d = (False, s))"
proof -
  note u = in_slab_unique[OF assms]
  show ?thesis by (auto simp add: Push_def Let_def u)
qed

theorem Push_succeeds_iff_witness:
  "wf_env (env0 True) \<and> wf_heap (env0 True) heap_one \<and>
   in_slab (env0 True) heap_one (block info8) 0 \<and>
   Push (env0 True) heap_one info8 = (True, heap_q) \<and>
   Push (env0 True) heap_one info8' = (False, heap_one)"
proof -
  note t = Push_succeeds_iff[OF wf_env0[of True] wf_heap_one[of True]]
  have i: "in_slab (env0 True) heap_one (block info8) 0"
    using in_slab_one0[of True] by (simp add: info8_def)
  have a: "Push (env0 True) heap_one info8 = (True, heap_q)"
    using t[of info8] i by (auto simp add: fixture_defs)
  have "\<And>i. in_slab (env0 True) heap_one (block info8') i \<Longrightarrow> i = 1"
    using GetSlabIndex_one(2)[of True]
    by (simp add: in_slab_unique[OF wf_env0 wf_heap_one] info8'_def)
  moreover have "state (slab_info heap_one ! 1) = kFreeSlab" by (simp add: fixture_defs)
  ultimately have "\<not> (\<exists>i. in_slab (env0 True) heap_one (block info8') i \<and>
         state (slab_info heap_one ! i) = kAllocatedSlab \<and> info (slab_info heap_one ! i) = info8')"
    by auto
  then have b: "Push (env0 True) heap_one info8' = (False, heap_one)"
    using t[of info8'] by blast
  show ?thesis using wf_env0 wf_heap_one i a b by simp
qed

subsection \<open>Empty\<close>

lemma Empty_drains:
  assumes "\<forall>i \<in> set (quarantine s). i < length (slab_info s)"
    and "length (slab_info s) \<le> kInvalidSlabIndex e"
  shows "\<exists>s'. Empty e s infos =
           Inr (infos @ map (\<lambda>i. info (slab_info s ! i)) (quarantine s), s') \<and>
         quarantine s' = [] \<and>
         length (slab_info s') = length (slab_info s) \<and>
         (\<forall>i < length (slab_info s).
            slab_info s' ! i =
              (if i \<in> set (quarantine s) then (slab_info s ! i)\<lparr>state := kAllocatedSlab\<rparr>
               else slab_info s ! i)) \<and>
         free_slabs s' = free_slabs s \<and> heap_address s' = heap_address s \<and>
         heap_size s' = heap_size s \<and> slab_count s' = slab_count s \<and>
         quarantine_ratio s' = quarantine_ratio s"
  using assms
proof (induction "quarantine s" arbitrary: s infos)
  case Nil
  then show ?case by (simp add: Empty.simps)
next
  case (Cons x xs)
  let ?s2 = "s\<lparr>quarantine := xs,
               slab_info := (slab_info s)[x := (slab_info s ! x)\<lparr>state := kAllocatedSlab\<rparr>]\<rparr>"
  have q: "quarantine s = x # xs" using Cons.hyps(2) by simp
  have x: "x < length (slab_info s)" using Cons.prems(1) q by simp
  then have xi: "x \<noteq> kInvalidSlabIndex e" using Cons.prems(2) by simp
  have step: "Empty e s infos = Empty e ?s2 (infos @ [info (slab_info s ! x)])"
    using q x xi by (subst Empty.simps) (simp add: Let_def)
  have p1: "\<forall>i \<in> set (quarantine ?s2). i < length (slab_info ?s2)"
    using Cons.prems(1) q by simp
  have p2: "length (slab_info ?s2) \<le> kInvalidSlabIndex e" using Cons.prems(2) by simp
  have "xs = quarantine ?s2" by simp
  from Cons.hyps(1)[OF this p1 p2, of "infos @ [info (slab_info s ! x)]"]
  obtain s' where s': "Empty e ?s2 (infos @ [info (slab_info s ! x)]) =
           Inr ((infos @ [info (slab_info s ! x)]) @
                map (\<lambda>i. info (slab_info ?s2 ! i)) (quarantine ?s2), s')"
    "quarantine s' = []" "length (slab_info s') = length (slab_info ?s2)"
    "\<forall>i < length (slab_info ?s2).
            slab_info s' ! i =
              (if i \<in> set (quarantine ?s2) then (slab_info ?s2 ! i)\<lparr>state := kAllocatedSlab\<rparr>
               else slab_info ?s2 ! i)"
    "free_slabs s' = free_slabs ?s2" "heap_address s' = heap_address ?s2"
    "heap_size s' = heap_size ?s2" "slab_count s' = slab_count ?s2"
    "quarantine_ratio s' = quarantine_ratio ?s2"
    by blast
  have m: "map (\<lambda>i. info (slab_info ?s2 ! i)) xs = map (\<lambda>i. info (slab_info s ! i)) xs"
    using x by (auto simp add: nth_list_update)
  have e1: "Empty e s infos = Inr (infos @ map (\<lambda>i. info (slab_info s ! i)) (quarantine s), s')"
    using step s'(1) m q by simp
  have e2: "\<forall>i < length (slab_info s).
            slab_info s' ! i =
              (if i \<in> set (quarantine s) then (slab_info s ! i)\<lparr>state := kAllocatedSlab\<rparr>
               else slab_info s ! i)"
    using s'(4) q x by (auto simp add: nth_list_update)
  show ?case using e1 e2 s'(2,3,5-9) by (intro exI[of _ s']) simp
qed

text \<open>
  C8. On a well-formed heap, \<^verbatim>\<open>Empty\<close> returns, whatever the ratio: it appends the
  descriptors of the quarantined slabs to the output vector in the order of the queue
  (oldest first), leaves the queue empty so that \<^verbatim>\<open>GetCount()\<close> is 0, sets the state of
  every slab that was in the queue to \<open>Allocated\<close> and changes no other slab and no
  other member.
\<close>

theorem Empty_drains_quarantine:
  assumes "wf_heap e s"
  shows "\<exists>s'. Empty e s infos =
           Inr (infos @ map (\<lambda>i. info (slab_info s ! i)) (quarantine s), s') \<and>
         GetCount s' = 0 \<and>
         length (slab_info s') = length (slab_info s) \<and>
         (\<forall>i < length (slab_info s).
            slab_info s' ! i =
              (if i \<in> set (quarantine s) then (slab_info s ! i)\<lparr>state := kAllocatedSlab\<rparr>
               else slab_info s ! i)) \<and>
         free_slabs s' = free_slabs s \<and> heap_address s' = heap_address s \<and>
         heap_size s' = heap_size s \<and> slab_count s' = slab_count s \<and>
         quarantine_ratio s' = quarantine_ratio s"
proof -
  have "\<forall>i \<in> set (quarantine s). i < length (slab_info s)"
    and "length (slab_info s) \<le> kInvalidSlabIndex e"
    using assms by (simp_all add: wf_heap_def)
  from Empty_drains[OF this, of infos] show ?thesis by (simp add: GetCount_def)
qed

lemma Empty_qq: "Empty (env0 d) heap_qq [] = Inr ([info8, info8'], heap_two)"
  by (simp add: Empty.simps fixture_defs)

theorem Empty_drains_quarantine_witness:
  "wf_heap (env0 True) heap_qq \<and>
   Empty (env0 True) heap_qq [] = Inr ([info8, info8'], heap_two) \<and>
   GetCount heap_two = 0 \<and>
   state (slab_info heap_qq ! 0) = kQuarantinedSlab \<and>
   state (slab_info heap_two ! 0) = kAllocatedSlab \<and>
   state (slab_info heap_qq ! 1) = kQuarantinedSlab \<and>
   state (slab_info heap_two ! 1) = kAllocatedSlab"
proof -
  obtain s' where s': "Empty (env0 True) heap_qq [] =
      Inr ([] @ map (\<lambda>i. info (slab_info heap_qq ! i)) (quarantine heap_qq), s')"
      "GetCount s' = 0"
    using Empty_drains_quarantine[OF wf_heap_qq[of True], of "[]"] by blast
  then have "s' = heap_two" using Empty_qq[of True] by simp
  then have "GetCount heap_two = 0" using s'(2) by simp
  moreover have "state (slab_info heap_qq ! 0) = kQuarantinedSlab"
   "state (slab_info heap_two ! 0) = kAllocatedSlab"
   "state (slab_info heap_qq ! 1) = kQuarantinedSlab"
   "state (slab_info heap_two ! 1) = kAllocatedSlab"
    by (simp_all add: fixture_defs)
  ultimately show ?thesis using wf_heap_qq Empty_qq by simp
qed

subsection \<open>AllocateBlock\<close>

lemma AlignDown_aligned: "x mod a = 0 \<Longrightarrow> AlignDown x a = x"
  by (simp add: AlignDown_def)

lemma size_t_add_exact: "a + b < 2 ^ size_t_bits e \<Longrightarrow> size_t_add e a b = a + b"
  by (simp add: size_t_add_def)

lemma AllocateBlock_rejects_upfront:
  "size_t_add e l n > GetPageSize e \<or> r > GetPageSize e \<Longrightarrow>
   AllocateBlock e s n l r layout = Inr (0, layout, [], s)"
  by (auto simp add: AllocateBlock_def)

lemma AllocateImpl_page:
  assumes "wf_env e" "wf_heap e s"
  shows "AllocateImpl e s (GetPageSize e) =
     (if free_slabs s = [] then Inr (None, s)
      else Inr (Some (hd (free_slabs s)),
             s\<lparr>free_slabs := tl (free_slabs s),
               slab_info := (slab_info s)[hd (free_slabs s) :=
                 \<lparr>state = kAllocatedSlab,
                  info = \<lparr>block = slab_base e s (hd (free_slabs s)),
                          block_size = GetPageSize e, header_size = 0, trailer_size = 0,
                          is_nested = False\<rparr>\<rparr>]\<rparr>))"
proof -
  have "0 < GetPageSize e" using assms(1) by (simp add: wf_env_def)
  then show ?thesis
    by (simp add: AllocateImpl_wf[OF assms] AlignDown_aligned slab_base_aligned[OF assms])
qed

text \<open>
  C6, as the code has it. On a well-formed heap, for a request that passes the two
  upfront checks and a layout whose trailer sum does not wrap: \<^verbatim>\<open>AllocateBlock\<close> accepts
  exactly when the planner succeeds, the layout's block size is \<open>2 * page_size\<close>, and
  \<open>trailer_size + trailer_padding_size\<close> is at least \<open>page_size\<close> and exceeds it by less
  than the shadow ratio. On acceptance it asks the byte allocator for one page; if no
  slab is free it returns null; otherwise the slab's descriptor gets the layout's block
  size, header size plus padding and trailer size plus padding, the nested flag false,
  and the call returns the recorded block address: the start of the block, which is the
  base of the slab and a multiple of the shadow ratio. On any failed check it returns
  null and leaves the object as it was.
\<close>

theorem AllocateBlock_accepts_iff:
  assumes "wf_env e" "wf_heap e s"
    and "size_t_add e l n \<le> GetPageSize e" "r \<le> GetPageSize e"
    and "BlockPlanLayout e (GetPageSize e, kShadowRatio e, n, l, max (GetPageSize e) r) layout
           = (ok, L)"
    and "BlockLayout.trailer_size L + trailer_padding_size L < 2 ^ size_t_bits e"
  shows "AllocateBlock e s n l r layout =
     (if ok \<and> BlockLayout.block_size L = 2 * GetPageSize e \<and>
         GetPageSize e \<le> BlockLayout.trailer_size L + trailer_padding_size L \<and>
         BlockLayout.trailer_size L + trailer_padding_size L - GetPageSize e < kShadowRatio e
      then
        (if free_slabs s = []
         then Inr (0, L, [(GetPageSize e, kShadowRatio e, n, l, max (GetPageSize e) r)], s)
         else Inr (slab_base e s (hd (free_slabs s)), L,
                [(GetPageSize e, kShadowRatio e, n, l, max (GetPageSize e) r)],
                s\<lparr>free_slabs := tl (free_slabs s),
                  slab_info := (slab_info s)[hd (free_slabs s) :=
                    \<lparr>state = kAllocatedSlab,
                     info = \<lparr>block = slab_base e s (hd (free_slabs s)),
                             block_size = BlockLayout.block_size L,
                             header_size = size_t_add e (BlockLayout.header_size L)
                                             (header_padding_size L),
                             trailer_size = BlockLayout.trailer_size L + trailer_padding_size L,
                             is_nested = False\<rparr>\<rparr>]\<rparr>))
      else Inr (0, L, [(GetPageSize e, kShadowRatio e, n, l, max (GetPageSize e) r)], s))
    \<and> slab_base e s (hd (free_slabs s)) mod kShadowRatio e = 0
    \<and> slab_base e s (hd (free_slabs s)) \<noteq> 0"
proof -
  let ?i = "hd (free_slabs s)"
  have al: "slab_base e s ?i mod kShadowRatio e = 0" by (rule slab_base_aligned[OF assms(1,2)])
  have nz: "slab_base e s ?i \<noteq> 0" using slab_base_pos[OF assms(2), of ?i] by simp
  have t: "size_t_add e (BlockLayout.trailer_size L) (trailer_padding_size L)
            = BlockLayout.trailer_size L + trailer_padding_size L"
    by (rule size_t_add_exact[OF assms(6)])
  have len: "free_slabs s \<noteq> [] \<Longrightarrow> ?i < length (slab_info s)"
  proof -
    assume "free_slabs s \<noteq> []"
    then have "?i \<in> set (free_slabs s)" by simp
    then show ?thesis using assms(2) by (simp add: wf_heap_def)
  qed
  have main: "AllocateBlock e s n l r layout =
     (if ok \<and> BlockLayout.block_size L = 2 * GetPageSize e \<and>
         GetPageSize e \<le> BlockLayout.trailer_size L + trailer_padding_size L \<and>
         BlockLayout.trailer_size L + trailer_padding_size L - GetPageSize e < kShadowRatio e
      then
        (if free_slabs s = []
         then Inr (0, L, [(GetPageSize e, kShadowRatio e, n, l, max (GetPageSize e) r)], s)
         else Inr (slab_base e s ?i, L,
                [(GetPageSize e, kShadowRatio e, n, l, max (GetPageSize e) r)],
                s\<lparr>free_slabs := tl (free_slabs s),
                  slab_info := (slab_info s)[?i :=
                    \<lparr>state = kAllocatedSlab,
                     info = \<lparr>block = slab_base e s ?i,
                             block_size = BlockLayout.block_size L,
                             header_size = size_t_add e (BlockLayout.header_size L)
                                             (header_padding_size L),
                             trailer_size = BlockLayout.trailer_size L + trailer_padding_size L,
                             is_nested = False\<rparr>\<rparr>]\<rparr>))
      else Inr (0, L, [(GetPageSize e, kShadowRatio e, n, l, max (GetPageSize e) r)], s))"
  proof -
    have m: "max (GetPageSize e) r = GetPageSize e" using assms(4) by simp
    have pl: "BlockPlanLayout e (GetPageSize e, kShadowRatio e, n, l, GetPageSize e) layout
               = (ok, L)"
      using assms(5) m by simp
    have pre: "\<not> GetPageSize e < size_t_add e l n" "\<not> GetPageSize e < r"
      using assms(3,4) by simp_all
    show ?thesis
    proof (cases "free_slabs s = []")
      case True
      then show ?thesis
        by (simp add: AllocateBlock_def Let_def m pl pre t kSlabSize_def
            AllocateImpl_page[OF assms(1,2)])
    next
      case False
      then show ?thesis using len al
        by (simp add: AllocateBlock_def Let_def m pl pre t kSlabSize_def
            AllocateImpl_page[OF assms(1,2)])
    qed
  qed
  show ?thesis using main al nz by blast
qed

lemma AllocateBlock_fresh:
  "AllocateBlock (env0 d) heap_fresh 8 0 0 layout0 =
     Inr (65536, layout8, [(4096, 8, 8, 0, 4096)], heap_block)"
  by (simp add: AllocateBlock_def AllocateImpl_def GetSlabAddress_def AlignDown_def
      kSlabSize_def size_t_add_def fixture_defs)

theorem AllocateBlock_accepts_iff_witness:
  "wf_env (env0 True) \<and> wf_heap (env0 True) heap_fresh \<and>
   size_t_add (env0 True) 0 8 \<le> GetPageSize (env0 True) \<and> 0 \<le> GetPageSize (env0 True) \<and>
   BlockPlanLayout (env0 True)
     (GetPageSize (env0 True), kShadowRatio (env0 True), 8, 0, max (GetPageSize (env0 True)) 0)
     layout0 = (True, layout8) \<and>
   BlockLayout.trailer_size layout8 + trailer_padding_size layout8 < 2 ^ size_t_bits (env0 True) \<and>
   AllocateBlock (env0 True) heap_fresh 8 0 0 layout0 =
     Inr (65536, layout8, [(4096, 8, 8, 0, 4096)], heap_block)"
proof -
  have a: "size_t_add (env0 True) 0 8 \<le> GetPageSize (env0 True)"
    by (simp add: size_t_add_def env0_def)
  have b: "0 \<le> GetPageSize (env0 True)" by simp
  have c: "BlockPlanLayout (env0 True)
     (GetPageSize (env0 True), kShadowRatio (env0 True), 8, 0, max (GetPageSize (env0 True)) 0)
     layout0 = (True, layout8)"
    by (simp add: fixture_defs)
  have d: "BlockLayout.trailer_size layout8 + trailer_padding_size layout8
            < 2 ^ size_t_bits (env0 True)"
    by (simp add: fixture_defs)
  have "AllocateBlock (env0 True) heap_fresh 8 0 0 layout0 =
     Inr (65536, layout8, [(4096, 8, 8, 0, 4096)], heap_block)"
    using AllocateBlock_accepts_iff[OF wf_env0[of True] wf_heap_fresh[of True] a b c d]
    by (simp add: slab_base_def kSlabSize_def size_t_add_def fixture_defs)
  then show ?thesis using wf_env0 wf_heap_fresh a b c d by simp
qed

text \<open>
  The claim has the call return the start of the block's body. The planner \<open>plan0\<close>
  puts the body of 8 bytes at \<open>69624\<close>, behind a header and padding of 4088 bytes; the
  call returns \<open>65536\<close>, the start of the block and of the slab.
\<close>

theorem AllocateBlock_returns_block_start_counterexample:
  "AllocateBlock (env0 True) heap_fresh 8 0 0 layout0 =
     Inr (65536, layout8, [(4096, 8, 8, 0, 4096)], heap_block) \<and>
   block (info (slab_info heap_block ! 0)) = 65536 \<and>
   slab_base (env0 True) heap_block 0 = 65536 \<and>
   body_start (block (info (slab_info heap_block ! 0))) layout8 = 69624"
proof -
  have "block (info (slab_info heap_block ! 0)) = 65536"
    "slab_base (env0 True) heap_block 0 = 65536"
    "body_start (block (info (slab_info heap_block ! 0))) layout8 = 69624"
    by (simp_all add: body_start_def slab_base_def fixture_defs)
  then show ?thesis using AllocateBlock_fresh by simp
qed

text \<open>
  C7 on the code. The upfront check adds \<^verbatim>\<open>min_left_redzone_size + size\<close> in \<^verbatim>\<open>size_t\<close>.
  With \<open>size = 2^32 - 1\<close> and a left redzone of 2 on a 32-bit build the exact sum
  exceeds the page size, the wrapped sum is 1, and the call goes on to the planner,
  whatever the planner is.
\<close>

theorem AllocateBlock_wrapped_sum_reaches_planner:
  "GetPageSize (env0 d) < 2 + 4294967295 \<and>
   size_t_add (env0 d) 2 4294967295 = 1 \<and>
   (\<exists>p L' s'. AllocateBlock ((env0 d)\<lparr>BlockPlanLayout := P\<rparr>) heap_fresh 4294967295 2 0 L =
        Inr (p, L', [(4096, 8, 4294967295, 2, 4096)], s')) \<and>
   AllocateBlock (env0 d) heap_fresh 4294967295 2 0 layout0 =
     Inr (65536,
          layout8\<lparr>header_padding_size := 0\<rparr>,
          [(4096, 8, 4294967295, 2, 4096)],
          heap_block\<lparr>slab_info :=
            [\<lparr>state = kAllocatedSlab,
              info = \<lparr>block = 65536, block_size = 8192, header_size = 16,
                      trailer_size = 4096, is_nested = False\<rparr>\<rparr>, free_slab]\<rparr>)"
proof -
  have a: "GetPageSize (env0 d) < 2 + 4294967295" "size_t_add (env0 d) 2 4294967295 = 1"
    by (simp_all add: size_t_add_def env0_def)
  have b: "\<exists>p L' s'. AllocateBlock ((env0 d)\<lparr>BlockPlanLayout := P\<rparr>) heap_fresh 4294967295 2 0 L =
        Inr (p, L', [(4096, 8, 4294967295, 2, 4096)], s')"
    by (simp add: AllocateBlock_def AllocateImpl_def GetSlabAddress_def AlignDown_def
      kSlabSize_def size_t_add_def env0_def heap_fresh_def Let_def)
  have c: "AllocateBlock (env0 d) heap_fresh 4294967295 2 0 layout0 =
     Inr (65536,
          layout8\<lparr>header_padding_size := 0\<rparr>,
          [(4096, 8, 4294967295, 2, 4096)],
          heap_block\<lparr>slab_info :=
            [\<lparr>state = kAllocatedSlab,
              info = \<lparr>block = 65536, block_size = 8192, header_size = 16,
                      trailer_size = 4096, is_nested = False\<rparr>\<rparr>, free_slab]\<rparr>)"
    by (simp add: AllocateBlock_def AllocateImpl_def GetSlabAddress_def AlignDown_def
      kSlabSize_def size_t_add_def fixture_defs)
  show ?thesis using a b c by blast
qed

subsection \<open>The invariant of the slab table\<close>

lemma block_in_slab_cong:
  "heap_address s' = heap_address s \<Longrightarrow> info (slab_info s' ! i) = info (slab_info s ! i) \<Longrightarrow>
   block_in_slab e s' i = block_in_slab e s i"
  by (simp add: block_in_slab_def slab_base_def)

lemma heap_inv_step:
  assumes "heap_inv e s"
    and "heap_address s' = heap_address s" "heap_size s' = heap_size s"
    and "slab_count s' = slab_count s" "length (slab_info s') = length (slab_info s)"
    and "distinct (free_slabs s')"
    and "\<forall>i \<in> set (free_slabs s'). i < slab_count s \<and> state (slab_info s' ! i) = kFreeSlab"
    and "distinct (quarantine s')"
    and "\<forall>i \<in> set (quarantine s'). i < slab_count s \<and> state (slab_info s' ! i) = kQuarantinedSlab"
    and "\<forall>i < slab_count s. state (slab_info s' ! i) \<noteq> kFreeSlab \<longrightarrow>
           (state (slab_info s ! i) \<noteq> kFreeSlab \<and> info (slab_info s' ! i) = info (slab_info s ! i))
           \<or> block_in_slab e s' i"
  shows "heap_inv e s'"
proof -
  have wf: "wf_heap e s" and b: "blocks_in_slabs e s" using assms(1) by (simp_all add: heap_inv_def)
  have wf': "wf_heap e s'"
    using wf assms(2-5,7,9) unfolding wf_heap_def by auto
  have "blocks_in_slabs e s'"
    unfolding blocks_in_slabs_def
  proof (intro allI impI)
    fix i assume i: "i < slab_count s'" and st: "state (slab_info s' ! i) \<noteq> kFreeSlab"
    from assms(10) i st assms(4)
    consider "state (slab_info s ! i) \<noteq> kFreeSlab \<and> info (slab_info s' ! i) = info (slab_info s ! i)"
      | "block_in_slab e s' i" by auto
    then show "block_in_slab e s' i"
    proof cases
      case 1
      then have "block_in_slab e s i" using b i assms(4) by (simp add: blocks_in_slabs_def)
      then show ?thesis using 1 block_in_slab_cong[OF assms(2), of i e] by simp
    next
      case 2
      then show ?thesis .
    qed
  qed
  then show ?thesis using wf' assms(6-9) by (simp add: heap_inv_def)
qed

lemma heap_inv_facts:
  assumes "heap_inv e s"
  shows "wf_heap e s" "length (slab_info s) = slab_count s"
    "distinct (free_slabs s)" "distinct (quarantine s)"
    "\<And>i. i \<in> set (free_slabs s) \<Longrightarrow> i < slab_count s \<and> state (slab_info s ! i) = kFreeSlab"
    "\<And>i. i \<in> set (quarantine s) \<Longrightarrow> i < slab_count s \<and> state (slab_info s ! i) = kQuarantinedSlab"
  using assms by (auto simp add: heap_inv_def wf_heap_def)

text \<open>Taking the head of the free queue for a block that lies in the slab.\<close>

lemma heap_inv_take_slab:
  assumes "heap_inv e s" "free_slabs s \<noteq> []"
    and "b \<noteq> 0" "slab_base e s (hd (free_slabs s)) \<le> b"
    and "b < slab_base e s (hd (free_slabs s)) + GetPageSize e"
    and "b + n \<le> slab_base e s (hd (free_slabs s)) + kSlabSize e"
  shows "heap_inv e
     (s\<lparr>free_slabs := tl (free_slabs s),
        slab_info := (slab_info s)[hd (free_slabs s) :=
          \<lparr>state = kAllocatedSlab,
           info = \<lparr>block = b, block_size = n, header_size = h, trailer_size = t,
                   is_nested = False\<rparr>\<rparr>]\<rparr>)"
    (is "heap_inv e ?s'")
proof -
  note f = heap_inv_facts[OF assms(1)]
  let ?i = "hd (free_slabs s)"
  have hd_in: "?i \<in> set (free_slabs s)" using assms(2) by simp
  then have i: "?i < slab_count s" "state (slab_info s ! ?i) = kFreeSlab" using f(5) by auto
  have len: "?i < length (slab_info s)" using i(1) f(2) by simp
  have tl_sub: "\<And>j. j \<in> set (tl (free_slabs s)) \<Longrightarrow> j \<in> set (free_slabs s) \<and> j \<noteq> ?i"
    using f(3) assms(2) by (cases "free_slabs s") auto
  have q_ne: "\<And>j. j \<in> set (quarantine s) \<Longrightarrow> j \<noteq> ?i" using f(6) i(2) by auto
  show ?thesis
  proof (rule heap_inv_step[OF assms(1)])
    show "distinct (free_slabs ?s')" using f(3) by (simp add: distinct_tl)
    show "\<forall>j \<in> set (free_slabs ?s'). j < slab_count s \<and> state (slab_info ?s' ! j) = kFreeSlab"
    proof
      fix j assume "j \<in> set (free_slabs ?s')"
      then have j: "j \<in> set (free_slabs s)" "j \<noteq> ?i" using tl_sub[of j] by simp_all
      then show "j < slab_count s \<and> state (slab_info ?s' ! j) = kFreeSlab"
        using f(5)[of j] by simp
    qed
    show "distinct (quarantine ?s')" using f(4) by simp
    show "\<forall>j \<in> set (quarantine ?s'). j < slab_count s \<and> state (slab_info ?s' ! j) = kQuarantinedSlab"
    proof
      fix j assume "j \<in> set (quarantine ?s')"
      then have j: "j \<in> set (quarantine s)" by simp
      then show "j < slab_count s \<and> state (slab_info ?s' ! j) = kQuarantinedSlab"
        using f(6)[of j] q_ne[of j] by simp
    qed
    show "\<forall>j < slab_count s. state (slab_info ?s' ! j) \<noteq> kFreeSlab \<longrightarrow>
           (state (slab_info s ! j) \<noteq> kFreeSlab \<and> info (slab_info ?s' ! j) = info (slab_info s ! j))
           \<or> block_in_slab e ?s' j"
    proof (intro allI impI)
      fix j assume j: "j < slab_count s" and "state (slab_info ?s' ! j) \<noteq> kFreeSlab"
      then show "(state (slab_info s ! j) \<noteq> kFreeSlab \<and> info (slab_info ?s' ! j) = info (slab_info s ! j))
           \<or> block_in_slab e ?s' j"
        using len assms(3-6)
        by (cases "j = ?i") (auto simp add: block_in_slab_def slab_base_def)
    qed
  qed simp_all
qed

lemma Allocate_heap_inv:
  assumes "wf_env e" "heap_inv e s" "Allocate e s bytes = Inr (p, s')"
  shows "heap_inv e s'"
proof -
  have wf: "wf_heap e s" using assms(2) by (simp add: heap_inv_def)
  show ?thesis
  proof (cases "bytes = 0 \<or> bytes > GetPageSize e \<or> free_slabs s = []")
    case True
    then show ?thesis using assms(2,3) by (auto simp add: Allocate_wf[OF assms(1) wf])
  next
    case False
    then have b: "0 < bytes" "bytes \<le> GetPageSize e" and ne: "free_slabs s \<noteq> []" by simp_all
    note g = block_position[OF assms(1) wf b, of "hd (free_slabs s)"]
    have "AlignDown (slab_base e s (hd (free_slabs s)) + GetPageSize e - bytes) (kShadowRatio e) + bytes
          \<le> slab_base e s (hd (free_slabs s)) + kSlabSize e"
      using g(3) by (simp add: kSlabSize_def)
    from heap_inv_take_slab[OF assms(2) ne g(4) g(1) g(2) this, of 0 0]
    show ?thesis using False assms(3) by (auto simp add: Allocate_wf[OF assms(1) wf])
  qed
qed

lemma AllocateBlock_state:
  assumes "wf_env e" "wf_heap e s" "AllocateBlock e s n l r layout = Inr (p, L, calls, s')"
  shows "s' = s \<or>
    (free_slabs s \<noteq> [] \<and>
     (\<exists>h t. s' = s\<lparr>free_slabs := tl (free_slabs s),
        slab_info := (slab_info s)[hd (free_slabs s) :=
          \<lparr>state = kAllocatedSlab,
           info = \<lparr>block = slab_base e s (hd (free_slabs s)), block_size = kSlabSize e,
                   header_size = h, trailer_size = t, is_nested = False\<rparr>\<rparr>]\<rparr>))"
proof (cases "free_slabs s = []")
  case True
  then show ?thesis using assms(3)
    by (auto simp add: AllocateBlock_def Let_def AllocateImpl_page[OF assms(1,2)]
        split: if_splits)
next
  case False
  then have "hd (free_slabs s) \<in> set (free_slabs s)" by simp
  then have len: "hd (free_slabs s) < length (slab_info s)" using assms(2) by (simp add: wf_heap_def)
  show ?thesis using assms(3) False len
    by (auto simp add: AllocateBlock_def Let_def AllocateImpl_page[OF assms(1,2)]
        split: if_splits)
qed

lemma AllocateBlock_heap_inv:
  assumes "wf_env e" "heap_inv e s" "AllocateBlock e s n l r layout = Inr (p, L, calls, s')"
  shows "heap_inv e s'"
proof -
  have wf: "wf_heap e s" using assms(2) by (simp add: heap_inv_def)
  have pg: "0 < GetPageSize e" using assms(1) by (simp add: wf_env_def)
  from AllocateBlock_state[OF assms(1) wf assms(3)] show ?thesis
  proof
    assume "s' = s" then show ?thesis using assms(2) by simp
  next
    assume a: "free_slabs s \<noteq> [] \<and>
     (\<exists>h t. s' = s\<lparr>free_slabs := tl (free_slabs s),
        slab_info := (slab_info s)[hd (free_slabs s) :=
          \<lparr>state = kAllocatedSlab,
           info = \<lparr>block = slab_base e s (hd (free_slabs s)), block_size = kSlabSize e,
                   header_size = h, trailer_size = t, is_nested = False\<rparr>\<rparr>]\<rparr>)"
    then obtain h t where s': "s' = s\<lparr>free_slabs := tl (free_slabs s),
        slab_info := (slab_info s)[hd (free_slabs s) :=
          \<lparr>state = kAllocatedSlab,
           info = \<lparr>block = slab_base e s (hd (free_slabs s)), block_size = kSlabSize e,
                   header_size = h, trailer_size = t, is_nested = False\<rparr>\<rparr>]\<rparr>"
      by blast
    have nz: "slab_base e s (hd (free_slabs s)) \<noteq> 0"
      using slab_base_pos[OF wf, of "hd (free_slabs s)"] by simp
    have lt: "slab_base e s (hd (free_slabs s)) < slab_base e s (hd (free_slabs s)) + GetPageSize e"
      using pg by simp
    show ?thesis unfolding s'
      using a by (intro heap_inv_take_slab[OF assms(2) _ nz _ lt]) simp_all
  qed
qed

lemma GetSlabIndex_bound:
  assumes "wf_env e" "wf_heap e s" "GetSlabIndex e s p \<noteq> kInvalidSlabIndex e"
  shows "GetSlabIndex e s p < slab_count s"
  using GetSlabIndex_in_slab[OF assms] by (simp add: in_slab_def)

lemma Free_heap_inv:
  assumes "wf_env e" "heap_inv e s" "Free e s p = Inr (ok, s')"
    and "dcheck_is_on e \<or> \<not> frees_quarantined e s p"
  shows "heap_inv e s'"
proof (cases "s' = s")
  case True
  then show ?thesis using assms(2) by simp
next
  case False
  note f = heap_inv_facts[OF assms(2)]
  let ?i = "GetSlabIndex e s p"
  have c: "p \<noteq> 0" "?i \<noteq> kInvalidSlabIndex e" "block (info (slab_info s ! ?i)) = p"
    "state (slab_info s ! ?i) \<noteq> kFreeSlab"
    "\<not> (dcheck_is_on e \<and> state (slab_info s ! ?i) = kQuarantinedSlab)"
    and s': "s' = s\<lparr>slab_info := (slab_info s)[?i := \<lparr>state = kFreeSlab, info = zero_info\<rparr>],
                    free_slabs := free_slabs s @ [?i]\<rparr>"
    using assms(3) False by (auto simp add: Free_def Let_def split: if_splits)
  have nq: "state (slab_info s ! ?i) \<noteq> kQuarantinedSlab"
    using assms(4) c by (auto simp add: frees_quarantined_def)
  have i: "?i < slab_count s" by (rule GetSlabIndex_bound[OF assms(1) f(1) c(2)])
  then have len: "?i < length (slab_info s)" using f(2) by simp
  have nf: "?i \<notin> set (free_slabs s)" using f(5)[of ?i] c(4) by auto
  have nqq: "?i \<notin> set (quarantine s)" using f(6)[of ?i] nq by auto
  show ?thesis unfolding s'
  proof (rule heap_inv_step[OF assms(2)])
    let ?s' = "s\<lparr>slab_info := (slab_info s)[?i := \<lparr>state = kFreeSlab, info = zero_info\<rparr>],
                 free_slabs := free_slabs s @ [?i]\<rparr>"
    show "distinct (free_slabs ?s')" using f(3) nf by simp
    show "\<forall>j \<in> set (free_slabs ?s'). j < slab_count s \<and> state (slab_info ?s' ! j) = kFreeSlab"
      using f(5) i len by (auto simp add: nth_list_update)
    show "distinct (quarantine ?s')" using f(4) by simp
    show "\<forall>j \<in> set (quarantine ?s'). j < slab_count s \<and> state (slab_info ?s' ! j) = kQuarantinedSlab"
    proof
      fix j assume "j \<in> set (quarantine ?s')"
      then have j: "j \<in> set (quarantine s)" by simp
      then have "j \<noteq> ?i" using nqq by auto
      then show "j < slab_count s \<and> state (slab_info ?s' ! j) = kQuarantinedSlab"
        using f(6)[OF j] by simp
    qed
    show "\<forall>j < slab_count s. state (slab_info ?s' ! j) \<noteq> kFreeSlab \<longrightarrow>
           (state (slab_info s ! j) \<noteq> kFreeSlab \<and> info (slab_info ?s' ! j) = info (slab_info s ! j))
           \<or> block_in_slab e ?s' j"
      using len by (auto simp add: nth_list_update)
  qed simp_all
qed

lemma FreeBlock_heap_inv:
  assumes "wf_env e" "heap_inv e s" "FreeBlock e s p = Inr (ok, s')"
    and "dcheck_is_on e \<or> \<not> frees_quarantined e s p"
  shows "heap_inv e s'"
proof (cases "Free e s p")
  case (Inl f)
  then show ?thesis using assms(3) by (simp add: FreeBlock_def split: if_splits)
next
  case (Inr r)
  obtain ok' s'' where r: "r = (ok', s'')" by (cases r)
  have "s'' = s'" using assms(3) Inr r by (simp add: FreeBlock_def split: if_splits)
  then have "Free e s p = Inr (ok', s')" using Inr r by simp
  then show ?thesis by (rule Free_heap_inv[OF assms(1,2) _ assms(4)])
qed

lemma Push_heap_inv:
  assumes "wf_env e" "heap_inv e s" "Push e s d = (ok, s')"
  shows "heap_inv e s'"
proof (cases "s' = s")
  case True
  then show ?thesis using assms(2) by simp
next
  case False
  note f = heap_inv_facts[OF assms(2)]
  let ?i = "GetSlabIndex e s (block d)"
  have c: "?i \<noteq> kInvalidSlabIndex e" "state (slab_info s ! ?i) = kAllocatedSlab"
    and s': "s' = s\<lparr>quarantine := quarantine s @ [?i],
                    slab_info := (slab_info s)[?i := (slab_info s ! ?i)\<lparr>state := kQuarantinedSlab\<rparr>]\<rparr>"
    using assms(3) False by (auto simp add: Push_def Let_def split: if_splits)
  have i: "?i < slab_count s" by (rule GetSlabIndex_bound[OF assms(1) f(1) c(1)])
  then have len: "?i < length (slab_info s)" using f(2) by simp
  have nf: "?i \<notin> set (free_slabs s)" using f(5)[of ?i] c(2) by auto
  have nqq: "?i \<notin> set (quarantine s)" using f(6)[of ?i] c(2) by auto
  show ?thesis unfolding s'
  proof (rule heap_inv_step[OF assms(2)])
    let ?s' = "s\<lparr>quarantine := quarantine s @ [?i],
                 slab_info := (slab_info s)[?i := (slab_info s ! ?i)\<lparr>state := kQuarantinedSlab\<rparr>]\<rparr>"
    show "distinct (free_slabs ?s')" using f(3) by simp
    show "\<forall>j \<in> set (free_slabs ?s'). j < slab_count s \<and> state (slab_info ?s' ! j) = kFreeSlab"
    proof
      fix j assume "j \<in> set (free_slabs ?s')"
      then have j: "j \<in> set (free_slabs s)" by simp
      then have "j \<noteq> ?i" using nf by auto
      then show "j < slab_count s \<and> state (slab_info ?s' ! j) = kFreeSlab"
        using f(5)[OF j] by simp
    qed
    show "distinct (quarantine ?s')" using f(4) nqq by simp
    show "\<forall>j \<in> set (quarantine ?s'). j < slab_count s \<and> state (slab_info ?s' ! j) = kQuarantinedSlab"
      using f(6) i len by (auto simp add: nth_list_update)
    show "\<forall>j < slab_count s. state (slab_info ?s' ! j) \<noteq> kFreeSlab \<longrightarrow>
           (state (slab_info s ! j) \<noteq> kFreeSlab \<and> info (slab_info ?s' ! j) = info (slab_info s ! j))
           \<or> block_in_slab e ?s' j"
      using len c(2) by (auto simp add: nth_list_update)
  qed simp_all
qed

lemma Pop_needs_entry: "quarantine s = [] \<Longrightarrow> QuarantineInvariantIsSatisfied e s"
  by (simp add: QuarantineInvariantIsSatisfied_def)

lemma Pop_heap_inv:
  assumes "heap_inv e s" "Pop e s d = Inr (ok, d', s')"
  shows "heap_inv e s'"
proof (cases "s' = s")
  case True
  then show ?thesis using assms(1) by simp
next
  case False
  note f = heap_inv_facts[OF assms(1)]
  let ?i = "hd (quarantine s)"
  have ne: "quarantine s \<noteq> []"
    and s': "s' = s\<lparr>quarantine := tl (quarantine s),
                    slab_info := (slab_info s)[?i := (slab_info s ! ?i)\<lparr>state := kAllocatedSlab\<rparr>]\<rparr>"
    using assms(2) False
    by (auto simp add: Pop_def Let_def Pop_needs_entry split: if_splits)
  have hd_in: "?i \<in> set (quarantine s)" using ne by simp
  then have i: "?i < slab_count s" "state (slab_info s ! ?i) = kQuarantinedSlab" using f(6) by auto
  have len: "?i < length (slab_info s)" using i(1) f(2) by simp
  have tl_sub: "\<And>j. j \<in> set (tl (quarantine s)) \<Longrightarrow> j \<in> set (quarantine s) \<and> j \<noteq> ?i"
    using f(4) ne by (cases "quarantine s") auto
  have nf: "?i \<notin> set (free_slabs s)" using f(5)[of ?i] i(2) by auto
  show ?thesis unfolding s'
  proof (rule heap_inv_step[OF assms(1)])
    let ?s' = "s\<lparr>quarantine := tl (quarantine s),
                 slab_info := (slab_info s)[?i := (slab_info s ! ?i)\<lparr>state := kAllocatedSlab\<rparr>]\<rparr>"
    show "distinct (free_slabs ?s')" using f(3) by simp
    show "\<forall>j \<in> set (free_slabs ?s'). j < slab_count s \<and> state (slab_info ?s' ! j) = kFreeSlab"
    proof
      fix j assume "j \<in> set (free_slabs ?s')"
      then have j: "j \<in> set (free_slabs s)" by simp
      then have "j \<noteq> ?i" using nf by auto
      then show "j < slab_count s \<and> state (slab_info ?s' ! j) = kFreeSlab"
        using f(5)[OF j] by simp
    qed
    show "distinct (quarantine ?s')" using f(4) by (simp add: distinct_tl)
    show "\<forall>j \<in> set (quarantine ?s'). j < slab_count s \<and> state (slab_info ?s' ! j) = kQuarantinedSlab"
    proof
      fix j assume "j \<in> set (quarantine ?s')"
      then have j: "j \<in> set (quarantine s)" "j \<noteq> ?i" using tl_sub[of j] by simp_all
      then show "j < slab_count s \<and> state (slab_info ?s' ! j) = kQuarantinedSlab"
        using f(6)[of j] by simp
    qed
    show "\<forall>j < slab_count s. state (slab_info ?s' ! j) \<noteq> kFreeSlab \<longrightarrow>
           (state (slab_info s ! j) \<noteq> kFreeSlab \<and> info (slab_info ?s' ! j) = info (slab_info s ! j))
           \<or> block_in_slab e ?s' j"
      using len i(2) by (auto simp add: nth_list_update)
  qed simp_all
qed

lemma Empty_heap_inv:
  assumes "heap_inv e s" "Empty e s infos = Inr (out, s')"
  shows "heap_inv e s'"
proof -
  note f = heap_inv_facts[OF assms(1)]
  have a: "\<forall>i \<in> set (quarantine s). i < length (slab_info s)" using f(6) f(2) by auto
  have b: "length (slab_info s) \<le> kInvalidSlabIndex e" using f(1) by (simp add: wf_heap_def)
  from Empty_drains[OF a b, of infos] assms(2)
  have s': "quarantine s' = []" "length (slab_info s') = length (slab_info s)"
    "\<forall>i < length (slab_info s). slab_info s' ! i =
        (if i \<in> set (quarantine s) then (slab_info s ! i)\<lparr>state := kAllocatedSlab\<rparr>
         else slab_info s ! i)"
    "free_slabs s' = free_slabs s" "heap_address s' = heap_address s"
    "heap_size s' = heap_size s" "slab_count s' = slab_count s"
    by auto
  show ?thesis
  proof (rule heap_inv_step[OF assms(1) s'(5,6,7,2)])
    show "distinct (free_slabs s')" using f(3) s'(4) by simp
    show "\<forall>j \<in> set (free_slabs s'). j < slab_count s \<and> state (slab_info s' ! j) = kFreeSlab"
    proof
      fix j assume "j \<in> set (free_slabs s')"
      then have j: "j \<in> set (free_slabs s)" using s'(4) by simp
      then have "j \<notin> set (quarantine s)" using f(5)[OF j] f(6)[of j] by auto
      then show "j < slab_count s \<and> state (slab_info s' ! j) = kFreeSlab"
        using f(5)[OF j] s'(3) f(2) by simp
    qed
    show "distinct (quarantine s')" using s'(1) by simp
    show "\<forall>j \<in> set (quarantine s'). j < slab_count s \<and> state (slab_info s' ! j) = kQuarantinedSlab"
      using s'(1) by simp
    show "\<forall>j < slab_count s. state (slab_info s' ! j) \<noteq> kFreeSlab \<longrightarrow>
           (state (slab_info s ! j) \<noteq> kFreeSlab \<and> info (slab_info s' ! j) = info (slab_info s ! j))
           \<or> block_in_slab e s' j"
    proof (intro allI impI)
      fix j assume j: "j < slab_count s" and st: "state (slab_info s' ! j) \<noteq> kFreeSlab"
      show "(state (slab_info s ! j) \<noteq> kFreeSlab \<and> info (slab_info s' ! j) = info (slab_info s ! j))
           \<or> block_in_slab e s' j"
      proof (cases "j \<in> set (quarantine s)")
        case True
        then show ?thesis using f(6)[OF True] s'(3) j f(2) by simp
      next
        case False
        then show ?thesis using st s'(3) j f(2) by simp
      qed
    qed
  qed
qed

lemma set_quarantine_ratio_heap_inv:
  assumes "heap_inv e s" "set_quarantine_ratio e s r = Inr s'"
  shows "heap_inv e s'"
proof -
  have "s' = s\<lparr>quarantine_ratio := r\<rparr>"
    using assms(2) by (auto simp add: set_quarantine_ratio_def split: if_splits)
  then show ?thesis using assms(1)
    by (simp add: heap_inv_def wf_heap_def blocks_in_slabs_def block_in_slab_def slab_base_def)
qed

lemma Free_quarantined_stops:
  assumes "dcheck_is_on e" "frees_quarantined e s p"
  shows "Free e s p = Inl CheckFailed"
  using assms by (simp add: Free_def frees_quarantined_def Let_def)

lemma step_heap_inv:
  assumes "wf_env e" "heap_inv e s" "step e s c = Inr s'"
    and "dcheck_is_on e \<or> respects_contract e s c"
  shows "heap_inv e s'"
proof (cases c)
  case (CallAllocate bytes)
  then show ?thesis using assms(3) Allocate_heap_inv[OF assms(1,2)]
    by (cases "Allocate e s bytes") auto
next
  case (CallFree p)
  have "dcheck_is_on e \<or> \<not> frees_quarantined e s p"
    using assms(4) CallFree by auto
  from Free_heap_inv[OF assms(1,2) _ this] show ?thesis using assms(3) CallFree
    by (cases "Free e s p") auto
next
  case (CallAllocateBlock n l r layout)
  then show ?thesis using assms(3) AllocateBlock_heap_inv[OF assms(1,2)]
    by (cases "AllocateBlock e s n l r layout") auto
next
  case (CallFreeBlock p)
  have "dcheck_is_on e \<or> \<not> frees_quarantined e s p"
    using assms(4) CallFreeBlock by auto
  from FreeBlock_heap_inv[OF assms(1,2) _ this] show ?thesis using assms(3) CallFreeBlock
    by (cases "FreeBlock e s p") auto
next
  case (CallPush d)
  then show ?thesis using assms(3) Push_heap_inv[OF assms(1,2), of d]
    by (cases "Push e s d") auto
next
  case (CallPop d)
  then show ?thesis using assms(3) Pop_heap_inv[OF assms(2)]
    by (cases "Pop e s d") auto
next
  case (CallEmpty infos)
  then show ?thesis using assms(3) Empty_heap_inv[OF assms(2)]
    by (cases "Empty e s infos") auto
next
  case (CallSetQuarantineRatio r)
  then show ?thesis using assms(3) set_quarantine_ratio_heap_inv[OF assms(2)] by simp
qed (use assms(2,3) in auto)

lemma run_heap_inv:
  assumes "wf_env e" "heap_inv e s" "run e s cs = Inr s'"
    and "dcheck_is_on e \<or> contract_kept e s cs"
  shows "heap_inv e s'"
  using assms(2-4)
proof (induction cs arbitrary: s)
  case Nil
  then show ?case by simp
next
  case (Cons c cs)
  from Cons.prems(2) obtain s1 where s1: "step e s c = Inr s1" "run e s1 cs = Inr s'"
    by (cases "step e s c") auto
  have "dcheck_is_on e \<or> respects_contract e s c" using Cons.prems(3) by auto
  then have "heap_inv e s1" by (rule step_heap_inv[OF assms(1) Cons.prems(1) s1(1)])
  moreover have "dcheck_is_on e \<or> contract_kept e s1 cs" using Cons.prems(3) s1(1) by auto
  ultimately show ?case using Cons.IH s1(2) by blast
qed

subsection \<open>The constructor and runs of calls\<close>

lemma replicate_update_same: "(replicate m x)[i := x] = replicate m x"
  by (induction m arbitrary: i) (simp_all split: nat.splits)

lemma ctor_loop_frame:
  "heap_address (ctor_loop n s) = heap_address s"
  "heap_size (ctor_loop n s) = heap_size s"
  "slab_count (ctor_loop n s) = slab_count s"
  "quarantine (ctor_loop n s) = quarantine s"
  "free_slabs (ctor_loop n s) = free_slabs s @ [0..<n]"
  by (induction n) (simp_all add: Let_def)

lemma ctor_loop_slab_info:
  "slab_info s = replicate m \<lparr>state = kFreeSlab, info = zero_info\<rparr> \<Longrightarrow>
   slab_info (ctor_loop n s) = replicate m \<lparr>state = kFreeSlab, info = zero_info\<rparr>"
  by (induction n) (simp_all add: Let_def replicate_update_same)

lemma AlignUp_div_mult: "0 < a \<Longrightarrow> AlignUp x a div a * a = AlignUp x a"
  by (simp add: AlignUp_def)

lemma ctor_heap_inv:
  assumes "wf_env e"
    and "ZebraBlockHeap_ctor e heap_size_arg os_address = Inr s0"
    and "os_address mod GetPageSize e = 0"
    and "os_address + AlignUp heap_size_arg (kSlabSize e) \<le> 2 ^ size_t_bits e"
    and "AlignUp heap_size_arg (kSlabSize e) div kSlabSize e \<le> kInvalidSlabIndex e"
  shows "heap_inv e s0"
proof -
  let ?hs = "AlignUp heap_size_arg (kSlabSize e)"
  let ?sc = "?hs div kSlabSize e"
  let ?init = "\<lparr>heap_address = os_address, heap_size = ?hs, slab_count = ?sc,
                 slab_info = replicate ?sc \<lparr>state = kFreeSlab, info = zero_info\<rparr>,
                 quarantine_ratio = kDefaultZebraBlockHeapQuarantineRatio e,
                 free_slabs = [], quarantine = []\<rparr>"
  have nz: "os_address \<noteq> 0" and s0: "s0 = ctor_loop ?sc ?init"
    using assms(2) by (auto simp add: ZebraBlockHeap_ctor_def Let_def split: if_splits)
  have k: "0 < kSlabSize e" by (rule kSlabSize_pos[OF assms(1)])
  have f: "heap_address s0 = os_address" "heap_size s0 = ?hs" "slab_count s0 = ?sc"
    "quarantine s0 = []" "free_slabs s0 = [0..<?sc]"
    unfolding s0 by (simp_all add: ctor_loop_frame)
  have si: "slab_info s0 = replicate ?sc \<lparr>state = kFreeSlab, info = zero_info\<rparr>"
    unfolding s0 by (rule ctor_loop_slab_info) simp
  have wf: "wf_heap e s0"
    using nz assms(3-5) AlignUp_div_mult[OF k, of heap_size_arg]
    by (simp add: wf_heap_def f si)
  have "blocks_in_slabs e s0" by (simp add: blocks_in_slabs_def f si)
  then show ?thesis using wf by (simp add: heap_inv_def f si)
qed

text \<open>
  C9, as the code has it. Take a heap fresh from the constructor (the region page
  aligned and inside the address space, the invalid index no slab's index) and any
  sequence of public calls that ran to its end without a failed check, in a build with
  the assertions or in any build when no call freed a block that was in quarantine.
  Then every slab whose state is not \<open>Free\<close> has a non-null recorded block address
  inside the slab's even page, and \<open>block + block_size\<close> does not pass the end of the
  slab's two pages.
\<close>

theorem blocks_stay_in_their_slabs:
  assumes "wf_env e"
    and "ZebraBlockHeap_ctor e heap_size_arg os_address = Inr s0"
    and "os_address mod GetPageSize e = 0"
    and "os_address + AlignUp heap_size_arg (kSlabSize e) \<le> 2 ^ size_t_bits e"
    and "AlignUp heap_size_arg (kSlabSize e) div kSlabSize e \<le> kInvalidSlabIndex e"
    and "run e s0 calls = Inr s"
    and "dcheck_is_on e \<or> contract_kept e s0 calls"
  shows "\<forall>i < slab_count s. state (slab_info s ! i) \<noteq> kFreeSlab \<longrightarrow>
           block (info (slab_info s ! i)) \<noteq> 0 \<and>
           slab_base e s i \<le> block (info (slab_info s ! i)) \<and>
           block (info (slab_info s ! i)) < slab_base e s i + GetPageSize e \<and>
           block (info (slab_info s ! i)) + CompactBlockInfo.block_size (info (slab_info s ! i))
             \<le> slab_base e s i + kSlabSize e"
proof -
  have "heap_inv e s0" by (rule ctor_heap_inv[OF assms(1-5)])
  then have "heap_inv e s" by (rule run_heap_inv[OF assms(1) _ assms(6,7)])
  then have "blocks_in_slabs e s" by (simp add: heap_inv_def)
  then show ?thesis by (simp add: blocks_in_slabs_def block_in_slab_def)
qed

lemma AllocateBlock_one:
  "AllocateBlock (env0 d) heap_one 8 0 0 layout0 =
     Inr (73728, layout8, [(4096, 8, 8, 0, 4096)],
          heap_one\<lparr>slab_info :=
                  [\<lparr>state = kAllocatedSlab, info = info8\<rparr>,
                   \<lparr>state = kAllocatedSlab,
                    info = \<lparr>block = 73728, block_size = 8192, header_size = 4088,
                            trailer_size = 4096, is_nested = False\<rparr>\<rparr>],
                free_slabs := []\<rparr>)"
  by (simp add: AllocateBlock_def AllocateImpl_def GetSlabAddress_def AlignDown_def
      kSlabSize_def size_t_add_def fixture_defs)

lemma Push_mixed:
  "Push (env0 d) (heap_one\<lparr>slab_info :=
                  [\<lparr>state = kAllocatedSlab, info = info8\<rparr>,
                   \<lparr>state = kAllocatedSlab,
                    info = \<lparr>block = 73728, block_size = 8192, header_size = 4088,
                            trailer_size = 4096, is_nested = False\<rparr>\<rparr>],
                free_slabs := []\<rparr>) info8 = (True, heap_mixed)"
  by (simp add: Push_def GetSlabIndex_def kSlabSize_def fixture_defs)

lemma run_mixed:
  "run (env0 d) heap_fresh [CallAllocate 8, CallAllocateBlock 8 0 0 layout0, CallPush info8]
     = Inr heap_mixed"
  by (simp add: Allocate_fresh AllocateBlock_one Push_mixed)

theorem blocks_stay_in_their_slabs_witness:
  "wf_env (env0 True) \<and>
   ZebraBlockHeap_ctor (env0 True) 16384 65536 = Inr heap_fresh \<and>
   65536 mod GetPageSize (env0 True) = 0 \<and>
   65536 + AlignUp 16384 (kSlabSize (env0 True)) \<le> 2 ^ size_t_bits (env0 True) \<and>
   AlignUp 16384 (kSlabSize (env0 True)) div kSlabSize (env0 True)
     \<le> kInvalidSlabIndex (env0 True) \<and>
   run (env0 True) heap_fresh [CallAllocate 8, CallAllocateBlock 8 0 0 layout0, CallPush info8]
     = Inr heap_mixed \<and>
   dcheck_is_on (env0 True) \<and>
   slab_count heap_mixed = 2 \<and>
   state (slab_info heap_mixed ! 0) = kQuarantinedSlab \<and>
   state (slab_info heap_mixed ! 1) = kAllocatedSlab \<and>
   block (info (slab_info heap_mixed ! 0)) \<noteq> 0 \<and>
   slab_base (env0 True) heap_mixed 0 \<le> block (info (slab_info heap_mixed ! 0)) \<and>
   block (info (slab_info heap_mixed ! 0)) < slab_base (env0 True) heap_mixed 0 + GetPageSize (env0 True) \<and>
   block (info (slab_info heap_mixed ! 0)) + CompactBlockInfo.block_size (info (slab_info heap_mixed ! 0))
     \<le> slab_base (env0 True) heap_mixed 0 + kSlabSize (env0 True) \<and>
   block (info (slab_info heap_mixed ! 1)) \<noteq> 0 \<and>
   slab_base (env0 True) heap_mixed 1 \<le> block (info (slab_info heap_mixed ! 1)) \<and>
   block (info (slab_info heap_mixed ! 1)) < slab_base (env0 True) heap_mixed 1 + GetPageSize (env0 True) \<and>
   block (info (slab_info heap_mixed ! 1)) + CompactBlockInfo.block_size (info (slab_info heap_mixed ! 1))
     \<le> slab_base (env0 True) heap_mixed 1 + kSlabSize (env0 True)"
proof -
  have a: "65536 mod GetPageSize (env0 True) = 0" by (simp add: env0_def)
  have b: "65536 + AlignUp 16384 (kSlabSize (env0 True)) \<le> 2 ^ size_t_bits (env0 True)"
    by (simp add: AlignUp_def kSlabSize_def env0_def)
  have c: "AlignUp 16384 (kSlabSize (env0 True)) div kSlabSize (env0 True)
     \<le> kInvalidSlabIndex (env0 True)"
    by (simp add: AlignUp_def kSlabSize_def env0_def)
  have d: "dcheck_is_on (env0 True) \<or>
    contract_kept (env0 True) heap_fresh
      [CallAllocate 8, CallAllocateBlock 8 0 0 layout0, CallPush info8]"
    by (simp add: env0_def)
  have st: "slab_count heap_mixed = 2" "state (slab_info heap_mixed ! 0) = kQuarantinedSlab"
    "state (slab_info heap_mixed ! 1) = kAllocatedSlab"
    by (simp_all add: fixture_defs)
  note t = blocks_stay_in_their_slabs[OF wf_env0[of True] ctor_fresh[of True] a b c
      run_mixed[of True] d]
  have t0: "block (info (slab_info heap_mixed ! 0)) \<noteq> 0 \<and>
   slab_base (env0 True) heap_mixed 0 \<le> block (info (slab_info heap_mixed ! 0)) \<and>
   block (info (slab_info heap_mixed ! 0)) < slab_base (env0 True) heap_mixed 0 + GetPageSize (env0 True) \<and>
   block (info (slab_info heap_mixed ! 0)) + CompactBlockInfo.block_size (info (slab_info heap_mixed ! 0))
     \<le> slab_base (env0 True) heap_mixed 0 + kSlabSize (env0 True)"
    using t st by simp
  have t1: "block (info (slab_info heap_mixed ! 1)) \<noteq> 0 \<and>
   slab_base (env0 True) heap_mixed 1 \<le> block (info (slab_info heap_mixed ! 1)) \<and>
   block (info (slab_info heap_mixed ! 1)) < slab_base (env0 True) heap_mixed 1 + GetPageSize (env0 True) \<and>
   block (info (slab_info heap_mixed ! 1)) + CompactBlockInfo.block_size (info (slab_info heap_mixed ! 1))
     \<le> slab_base (env0 True) heap_mixed 1 + kSlabSize (env0 True)"
    using t st by simp
  have dc: "dcheck_is_on (env0 True)" by (simp add: env0_def)
  show ?thesis
    using wf_env0[of True] ctor_fresh[of True] a b c run_mixed[of True] dc st t0 t1 by blast
qed

text \<open>
  Without the assertions the claim fails for a client that frees a quarantined block:
  \<^verbatim>\<open>Free\<close> marks the slab free and zeroes its descriptor while the index stays in the
  quarantine, and \<^verbatim>\<open>Empty\<close> then sets the slab back to \<open>Allocated\<close> with a null block
  address.
\<close>

theorem quarantined_free_breaks_invariant_counterexample:
  "ZebraBlockHeap_ctor (env0 False) 16384 65536 = Inr heap_fresh \<and>
   run (env0 False) heap_fresh [CallAllocate 8, CallPush info8, CallFree 69624, CallEmpty []]
     = Inr heap_stale \<and>
   0 < slab_count heap_stale \<and>
   state (slab_info heap_stale ! 0) = kAllocatedSlab \<and>
   block (info (slab_info heap_stale ! 0)) = 0"
proof -
  have "run (env0 False) heap_fresh [CallAllocate 8, CallPush info8, CallFree 69624, CallEmpty []]
     = Inr heap_stale"
    by (simp add: Allocate_def AllocateImpl_def GetSlabAddress_def AlignDown_def Push_def
        Free_def Empty.simps GetSlabIndex_def kSlabSize_def fixture_defs)
  moreover have "0 < slab_count heap_stale" "state (slab_info heap_stale ! 0) = kAllocatedSlab"
    "block (info (slab_info heap_stale ! 0)) = 0"
    by (simp_all add: fixture_defs)
  ultimately show ?thesis using ctor_fresh[of False] by simp
qed

subsection \<open>Single-precision rounding\<close>

lemma float_round_denominator:
  "0 < d \<Longrightarrow> 0 < snd (float_round a b u d)"
proof (induction a b u d rule: float_round.induct)
  case (1 a b u d)
  show ?case
    using "1.IH" "1.prems"
    by (subst float_round.simps) (simp add: Let_def)
qed

lemma float_round_error:
  assumes "0 < a" "0 < b" "0 < u" "0 < d"
  shows "\<bar>float_value (float_round a b u d) - real a * real u / (real b * real d)\<bar>
           \<le> real a * real u / (real b * real d) / 16777216"
  using assms
proof (induction a b u d rule: float_round.induct)
  case (1 a b u d)
  let ?x = "real a * real u / (real b * real d)"
  consider (up) "a < 8388608 * b" | (down) "\<not> a < 8388608 * b" "16777216 * b \<le> a"
    | (base) "\<not> a < 8388608 * b" "\<not> 16777216 * b \<le> a" by blast
  then show ?case
  proof cases
    case up
    have eq: "float_round a b u d = float_round (2 * a) b u (2 * d)"
      using up "1.prems" by (subst float_round.simps) simp
    have "real (2 * a) * real u / (real b * real (2 * d)) = ?x" by simp
    then show ?thesis
      using "1.IH"(1)[OF _ up] "1.prems" unfolding eq by simp
  next
    case down
    have eq: "float_round a b u d = float_round a (2 * b) (2 * u) d"
      using down "1.prems" by (subst float_round.simps) simp
    have "real a * real (2 * u) / (real (2 * b) * real d) = ?x" by simp
    then show ?thesis
      using "1.IH"(2)[OF _ down] "1.prems" unfolding eq by simp
  next
    case base
    define m where "m = a div b"
    define r where "r = a mod b"
    define m' where "m' = (if b < 2 * r \<or> (2 * r = b \<and> odd m) then m + 1 else m)"
    have eq: "float_round a b u d = (m' * u, d)"
      using base "1.prems" unfolding m'_def m_def r_def
      by (subst float_round.simps) (simp add: Let_def)
    have ab: "a = m * b + r" and rb: "r < b"
      using "1.prems" by (simp_all add: m_def r_def)
    have rab: "real a = real m * real b + real r" using ab by (metis of_nat_add of_nat_mult)
    have bpos: "0 < real b" and dpos: "0 < real d" and upos: "0 < real u"
      using "1.prems" by simp_all
    have q: "real a / real b = real m + real r / real b"
      using bpos by (simp add: rab field_simps)
    have half: "\<bar>real m' - real a / real b\<bar> \<le> 1 / 2"
    proof (cases "b < 2 * r \<or> (2 * r = b \<and> odd m)")
      case True
      then have "real b \<le> 2 * real r" by (metis less_imp_le of_nat_le_iff of_nat_mult of_nat_numeral order_refl)
      then have "1 / 2 \<le> real r / real b" using bpos by (simp add: field_simps)
      moreover have "real r / real b < 1" using rb bpos by simp
      moreover have "real m' = real m + 1" using True by (simp add: m'_def)
      ultimately show ?thesis unfolding q by simp
    next
      case False
      then have "2 * r \<le> b" by simp
      then have "2 * real r \<le> real b" by (metis of_nat_le_iff of_nat_mult of_nat_numeral)
      then have "real r / real b \<le> 1 / 2" using bpos by (simp add: field_simps)
      moreover have "0 \<le> real r / real b" by simp
      moreover have "real m' = real m" using False by (simp add: m'_def)
      ultimately show ?thesis unfolding q by simp
    qed
    have "8388608 * real b \<le> real a"
      using base(1) by (metis not_less of_nat_le_iff of_nat_mult of_nat_numeral)
    then have big: "1 / 2 \<le> real a / real b / 16777216" using bpos by (simp add: field_simps)
    have "\<bar>real m' - real a / real b\<bar> \<le> real a / real b / 16777216" using half big by linarith
    then have "\<bar>real m' - real a / real b\<bar> * (real u / real d)
                 \<le> real a / real b / 16777216 * (real u / real d)"
      using upos dpos by (intro mult_right_mono) simp_all
    moreover have "\<bar>real m' - real a / real b\<bar> * (real u / real d)
          = \<bar>real m' * real u / real d - ?x\<bar>"
    proof -
      have "0 \<le> real u / real d" using upos dpos by simp
      then have "\<bar>real m' - real a / real b\<bar> * (real u / real d)
          = \<bar>(real m' - real a / real b) * (real u / real d)\<bar>"
        by (simp add: abs_mult)
      also have "(real m' - real a / real b) * (real u / real d)
          = real m' * real u / real d - ?x"
        by (simp add: left_diff_distrib diff_divide_distrib)
      finally show ?thesis .
    qed
    moreover have "real a / real b / 16777216 * (real u / real d) = ?x / 16777216"
      by simp
    ultimately show ?thesis by (simp add: eq float_value_def)
  qed
qed

lemma float_of_size_exact_aux:
  "0 < a \<Longrightarrow> a < 16777216 \<Longrightarrow> 0 < d \<Longrightarrow>
   float_value (float_round a 1 u d) = real a * real u / real d"
proof (induction a "1::nat" u d rule: float_round.induct)
  case (1 a u d)
  show ?case
  proof (cases "a < 8388608")
    case True
    have eq: "float_round a 1 u d = float_round (2 * a) 1 u (2 * d)"
      using True "1.prems" by (subst float_round.simps) simp
    show ?thesis unfolding eq using "1.hyps"(1) True "1.prems" by simp
  next
    case False
    then show ?thesis using "1.prems"
      by (subst float_round.simps) (simp add: Let_def float_value_def)
  qed
qed

lemma float_of_size_exact:
  "0 < n \<Longrightarrow> n < 16777216 \<Longrightarrow> float_value (float_of_size n) = real n"
  using float_of_size_exact_aux[of n 1 1] by (simp add: float_of_size_def)

lemma float_quotient_error:
  assumes "0 < n" "n < 16777216" "0 < c" "c < 16777216"
  shows "\<exists>q. float_div (float_of_size n) (float_of_size c) = Some q \<and>
             \<bar>float_value q - real n / real c\<bar> \<le> real n / real c / 16777216"
proof -
  obtain p1 q1 where n: "float_of_size n = (p1, q1)" by (cases "float_of_size n")
  obtain p2 q2 where c: "float_of_size c = (p2, q2)" by (cases "float_of_size c")
  have q1: "0 < q1" using float_round_denominator[of 1 n 1 1] n by (simp add: float_of_size_def)
  have q2: "0 < q2" using float_round_denominator[of 1 c 1 1] c by (simp add: float_of_size_def)
  have v1: "real p1 / real q1 = real n"
    using float_of_size_exact[OF assms(1,2)] n by (simp add: float_value_def)
  have v2: "real p2 / real q2 = real c"
    using float_of_size_exact[OF assms(3,4)] c by (simp add: float_value_def)
  have p1: "0 < p1" using v1 assms(1) q1 by (cases "p1 = 0") simp_all
  have p2: "0 < p2" using v2 assms(3) q2 by (cases "p2 = 0") simp_all
  have d: "float_div (float_of_size n) (float_of_size c)
             = Some (float_round (p1 * q2) (q1 * p2) 1 1)"
    using p2 by (simp add: float_div_def n c)
  have "real (p1 * q2) * real (1::nat) / (real (q1 * p2) * real (1::nat))
          = (real p1 / real q1) / (real p2 / real q2)"
    by simp
  then have x: "real (p1 * q2) * real (1::nat) / (real (q1 * p2) * real (1::nat)) = real n / real c"
    unfolding v1 v2 .
  have "0 < p1 * q2" "0 < q1 * p2" using p1 p2 q1 q2 by simp_all
  from float_round_error[OF this, of 1 1] show ?thesis unfolding x d by simp
qed

subsection \<open>Pop\<close>

lemma queue_head_valid:
  assumes "wf_heap e s" "quarantine s \<noteq> []"
  shows "hd (quarantine s) < length (slab_info s)" "hd (quarantine s) \<noteq> kInvalidSlabIndex e"
proof -
  have "hd (quarantine s) \<in> set (quarantine s)" using assms(2) by simp
  then have "hd (quarantine s) < slab_count s" using assms(1) by (simp add: wf_heap_def)
  then show "hd (quarantine s) < length (slab_info s)" "hd (quarantine s) \<noteq> kInvalidSlabIndex e"
    using assms(1) by (auto simp add: wf_heap_def)
qed

text \<open>
  C3, as the code has it. On a well-formed heap whose quarantine queue holds quarantined
  slabs, \<^verbatim>\<open>Pop\<close> fails, leaving the object and the out-parameter as they were, exactly
  when the quarantine is empty or the quotient of the occupancy by \<open>slab_count\<close>,
  computed in single precision (both operands converted to \<^verbatim>\<open>float\<close>, the division
  rounded to the nearest \<^verbatim>\<open>float\<close>), is at most \<open>quarantine_ratio\<close>. Otherwise it
  removes the head of the quarantine queue, sets that slab's state from \<open>Quarantined\<close>
  to \<open>Allocated\<close>, changes nothing else, and writes the slab's stored descriptor to the
  out-parameter. For fewer than \<open>2^24\<close> slabs the single-precision quotient is within
  \<open>2^-24\<close> of the exact quotient, relatively.
\<close>

theorem Pop_fails_iff_float_quotient_within_ratio:
  assumes "wf_heap e s"
    and "\<forall>i \<in> set (quarantine s). state (slab_info s ! i) = kQuarantinedSlab"
  shows "Pop e s d =
     (if quarantine s = [] \<or>
         float_le (float_div (float_of_size (length (quarantine s)))
                             (float_of_size (slab_count s)))
                  (quarantine_ratio s)
      then Inr (False, d, s)
      else Inr (True, info (slab_info s ! hd (quarantine s)),
             s\<lparr>quarantine := tl (quarantine s),
               slab_info := (slab_info s)[hd (quarantine s) :=
                  (slab_info s ! hd (quarantine s))\<lparr>state := kAllocatedSlab\<rparr>]\<rparr>))
    \<and> ((\<exists>d' s'. Pop e s d = Inr (False, d', s')) \<longleftrightarrow>
         quarantine s = [] \<or>
         float_le (float_div (float_of_size (length (quarantine s)))
                             (float_of_size (slab_count s)))
                  (quarantine_ratio s))
    \<and> (quarantine s \<noteq> [] \<longrightarrow> state (slab_info s ! hd (quarantine s)) = kQuarantinedSlab)
    \<and> (quarantine s \<noteq> [] \<and> length (quarantine s) < 16777216 \<and> slab_count s < 16777216 \<longrightarrow>
         (\<exists>q. float_div (float_of_size (length (quarantine s))) (float_of_size (slab_count s))
                 = Some q \<and>
               \<bar>float_value q - real (length (quarantine s)) / real (slab_count s)\<bar>
                 \<le> real (length (quarantine s)) / real (slab_count s) / 16777216))"
proof -
  let ?c = "quarantine s = [] \<or>
         float_le (float_div (float_of_size (length (quarantine s)))
                             (float_of_size (slab_count s)))
                  (quarantine_ratio s)"
  have eq: "Pop e s d =
     (if ?c then Inr (False, d, s)
      else Inr (True, info (slab_info s ! hd (quarantine s)),
             s\<lparr>quarantine := tl (quarantine s),
               slab_info := (slab_info s)[hd (quarantine s) :=
                  (slab_info s ! hd (quarantine s))\<lparr>state := kAllocatedSlab\<rparr>]\<rparr>))"
  proof (cases ?c)
    case True
    then show ?thesis by (simp add: Pop_def QuarantineInvariantIsSatisfied_def)
  next
    case False
    then have ne: "quarantine s \<noteq> []" by simp
    then have q: "state (slab_info s ! hd (quarantine s)) = kQuarantinedSlab"
      using assms(2) by simp
    show ?thesis using False q queue_head_valid[OF assms(1) ne]
      by (simp add: Pop_def QuarantineInvariantIsSatisfied_def Let_def)
  qed
  have iff: "(\<exists>d' s'. Pop e s d = Inr (False, d', s')) \<longleftrightarrow> ?c"
    unfolding eq by simp
  have st: "quarantine s \<noteq> [] \<longrightarrow> state (slab_info s ! hd (quarantine s)) = kQuarantinedSlab"
    using assms(2) by simp
  have err: "quarantine s \<noteq> [] \<and> length (quarantine s) < 16777216 \<and> slab_count s < 16777216 \<longrightarrow>
         (\<exists>q. float_div (float_of_size (length (quarantine s))) (float_of_size (slab_count s))
                 = Some q \<and>
               \<bar>float_value q - real (length (quarantine s)) / real (slab_count s)\<bar>
                 \<le> real (length (quarantine s)) / real (slab_count s) / 16777216)"
  proof
    assume h: "quarantine s \<noteq> [] \<and> length (quarantine s) < 16777216 \<and> slab_count s < 16777216"
    then have n: "0 < length (quarantine s)" by simp
    have "hd (quarantine s) \<in> set (quarantine s)" using h by simp
    then have c: "0 < slab_count s" using assms(1) by (auto simp add: wf_heap_def)
    from float_quotient_error[OF n _ c] h
    show "\<exists>q. float_div (float_of_size (length (quarantine s))) (float_of_size (slab_count s))
                 = Some q \<and>
               \<bar>float_value q - real (length (quarantine s)) / real (slab_count s)\<bar>
                 \<le> real (length (quarantine s)) / real (slab_count s) / 16777216"
      by blast
  qed
  show ?thesis using eq iff st err by blast
qed

lemmas float_eval = float_le_def float_value_def float_div_def float_of_size_def float_round.simps

theorem Pop_fails_iff_float_quotient_within_ratio_witness:
  "wf_heap (env0 True) heap_qq \<and> wf_heap (env0 True) heap_q \<and>
   state (slab_info heap_qq ! 0) = kQuarantinedSlab \<and>
   state (slab_info heap_qq ! 1) = kQuarantinedSlab \<and>
   Pop (env0 True) heap_fresh zero_info = Inr (False, zero_info, heap_fresh) \<and>
   Pop (env0 True) heap_q zero_info = Inr (False, zero_info, heap_q) \<and>
   Pop (env0 True) heap_qq zero_info =
     Inr (True, info8,
          heap_qq\<lparr>quarantine := [1],
                  slab_info := [\<lparr>state = kAllocatedSlab, info = info8\<rparr>,
                                \<lparr>state = kQuarantinedSlab, info = info8'\<rparr>]\<rparr>)"
proof -
  have q0: "\<forall>i \<in> set (quarantine heap_fresh). state (slab_info heap_fresh ! i) = kQuarantinedSlab"
    by (simp add: fixture_defs)
  have q1: "\<forall>i \<in> set (quarantine heap_q). state (slab_info heap_q ! i) = kQuarantinedSlab"
    by (simp add: fixture_defs)
  have q2: "\<forall>i \<in> set (quarantine heap_qq). state (slab_info heap_qq ! i) = kQuarantinedSlab"
    by (simp add: fixture_defs)
  have f1: "float_le (float_div (float_of_size 1) (float_of_size 2)) (1 / 2)"
    by (simp add: float_eval)
  have f2: "\<not> float_le (float_div (float_of_size 2) (float_of_size 2)) (1 / 2)"
    by (simp add: float_eval)
  have a: "Pop (env0 True) heap_fresh zero_info = Inr (False, zero_info, heap_fresh)"
  proof -
    have "quarantine heap_fresh = []" by (simp add: heap_fresh_def)
    then show ?thesis
      using Pop_fails_iff_float_quotient_within_ratio[OF wf_heap_fresh[of True] q0, of zero_info,
          THEN conjunct1]
      by simp
  qed
  have l1: "length (quarantine heap_q) = 1" "slab_count heap_q = 2"
    "quarantine_ratio heap_q = 1 / 2" "quarantine heap_q \<noteq> []"
    by (simp_all add: heap_q_def heap_fresh_def)
  have b: "Pop (env0 True) heap_q zero_info = Inr (False, zero_info, heap_q)"
    using Pop_fails_iff_float_quotient_within_ratio[OF wf_heap_q[of True] q1, of zero_info,
        THEN conjunct1, unfolded l1(1-3)] f1
    by simp
  have c: "Pop (env0 True) heap_qq zero_info =
     Inr (True, info8,
          heap_qq\<lparr>quarantine := [1],
                  slab_info := [\<lparr>state = kAllocatedSlab, info = info8\<rparr>,
                                \<lparr>state = kQuarantinedSlab, info = info8'\<rparr>]\<rparr>)"
  proof -
    have l2: "length (quarantine heap_qq) = 2" "slab_count heap_qq = 2"
      "quarantine_ratio heap_qq = 1 / 2" "quarantine heap_qq \<noteq> []"
      by (simp_all add: heap_qq_def heap_fresh_def)
    have "Pop (env0 True) heap_qq zero_info =
        Inr (True, info (slab_info heap_qq ! hd (quarantine heap_qq)),
          heap_qq\<lparr>quarantine := tl (quarantine heap_qq),
            slab_info := (slab_info heap_qq)[hd (quarantine heap_qq) :=
              (slab_info heap_qq ! hd (quarantine heap_qq))\<lparr>state := kAllocatedSlab\<rparr>]\<rparr>)"
      using Pop_fails_iff_float_quotient_within_ratio[OF wf_heap_qq[of True] q2, of zero_info,
          THEN conjunct1, unfolded l2(1-3)] f2 l2(4)
      by simp
    then show ?thesis by (simp add: heap_qq_def heap_fresh_def)
  qed
  have d: "state (slab_info heap_qq ! 0) = kQuarantinedSlab"
    "state (slab_info heap_qq ! 1) = kQuarantinedSlab"
    by (simp_all add: fixture_defs)
  show ?thesis using wf_heap_qq wf_heap_q a b c d by simp
qed

lemma ctor_loop_ratio: "quarantine_ratio (ctor_loop n s) = quarantine_ratio s"
  by (induction n) (simp_all add: Let_def)

lemma ctor_six: "ZebraBlockHeap_ctor (env0 d) 49152 65536 = Inr heap_six"
proof -
  let ?init = "\<lparr>heap_address = 65536, heap_size = 49152, slab_count = 6,
                 slab_info = replicate 6 \<lparr>state = kFreeSlab, info = zero_info\<rparr>,
                 quarantine_ratio = 1 / 2, free_slabs = [], quarantine = []\<rparr>"
  have "ZebraBlockHeap_ctor (env0 d) 49152 65536 = Inr (ctor_loop 6 ?init)"
    by (simp add: ZebraBlockHeap_ctor_def AlignUp_def kSlabSize_def env0_def)
  moreover have "ctor_loop 6 ?init = heap_six"
  proof (rule ZebraBlockHeap.equality)
    show "slab_info (ctor_loop 6 ?init) = slab_info heap_six"
    proof -
      have r6: "\<And>x::SlabInfo. replicate 6 x = [x, x, x, x, x, x]"
        by (simp add: eval_nat_numeral)
      show ?thesis
        by (simp add: ctor_loop_slab_info[of _ 6] heap_six_def free_slab_def r6 [symmetric])
    qed
    show "free_slabs (ctor_loop 6 ?init) = free_slabs heap_six"
      by (simp add: ctor_loop_frame heap_six_def upt_rec)
  qed (simp_all add: ctor_loop_frame ctor_loop_ratio heap_six_def)
  ultimately show ?thesis by simp
qed

lemma run_five:
  "run (env0 d) heap_six
     [CallSetQuarantineRatio (13981013 / 16777216),
      CallAllocate 8, CallAllocate 8, CallAllocate 8, CallAllocate 8, CallAllocate 8,
      CallPush (slab8 0), CallPush (slab8 1), CallPush (slab8 2), CallPush (slab8 3),
      CallPush (slab8 4)]
   = Inr heap_five"
  by (simp add: set_quarantine_ratio_def Allocate_def AllocateImpl_def GetSlabAddress_def
      AlignDown_def Push_def GetSlabIndex_def kSlabSize_def fixture_defs)

text \<open>
  The claim compares the exact quotient. With five of six slabs in quarantine and the
  ratio \<open>13981013 / 2^24\<close> the exact quotient \<open>5 / 6\<close> is above the ratio, so the claim
  has \<^verbatim>\<open>Pop\<close> succeed; in single precision \<open>5 / 6\<close> rounds down to the ratio itself,
  the comparison holds and \<^verbatim>\<open>Pop\<close> fails. The heap is reached from the constructor by
  setting the ratio, five allocations and five pushes.
\<close>

theorem Pop_exact_quotient_counterexample:
  "ZebraBlockHeap_ctor (env0 True) 49152 65536 = Inr heap_six \<and>
   run (env0 True) heap_six
     [CallSetQuarantineRatio (13981013 / 16777216),
      CallAllocate 8, CallAllocate 8, CallAllocate 8, CallAllocate 8, CallAllocate 8,
      CallPush (slab8 0), CallPush (slab8 1), CallPush (slab8 2), CallPush (slab8 3),
      CallPush (slab8 4)]
   = Inr heap_five \<and>
   GetCount heap_five = 5 \<and> slab_count heap_five = 6 \<and>
   quarantine_ratio heap_five = 13981013 / 16777216 \<and>
   quarantine_ratio heap_five < real (GetCount heap_five) / real (slab_count heap_five) \<and>
   float_div (float_of_size 5) (float_of_size 6) = Some (13981013, 16777216) \<and>
   Pop (env0 True) heap_five zero_info = Inr (False, zero_info, heap_five)"
proof -
  have a: "GetCount heap_five = 5" "slab_count heap_five = 6"
    "quarantine_ratio heap_five = 13981013 / 16777216"
    by (simp_all add: GetCount_def heap_five_def)
  have b: "quarantine_ratio heap_five < real (GetCount heap_five) / real (slab_count heap_five)"
    unfolding a by simp
  have c: "float_div (float_of_size 5) (float_of_size 6) = Some (13981013, 16777216)"
    by (simp add: float_eval)
  have l: "length (quarantine heap_five) = 5" by (simp add: heap_five_def)
  have "float_le (float_div (float_of_size 5) (float_of_size 6)) (13981013 / 16777216)"
    unfolding c by (simp add: float_le_def float_value_def)
  then have "QuarantineInvariantIsSatisfied (env0 True) heap_five"
    unfolding QuarantineInvariantIsSatisfied_def l a by simp
  then have d: "Pop (env0 True) heap_five zero_info = Inr (False, zero_info, heap_five)"
    by (simp add: Pop_def)
  show ?thesis using ctor_six[of True] run_five[of True] a b c d by simp
qed

end
